theory Spec2Isabelle
  imports Complex_Main "HOL-Library.Sublist" "HOL-Library.AList"
begin

section \<open>Text\<close>

text \<open>
  A Python \<open>str\<close> is a sequence of Unicode code points; it is modelled as a list of
  natural numbers, one per code point. String constants of the source are written out
  as their code points.
\<close>

type_synonym ustr = "nat list"

text \<open>
  \<open>str.isspace\<close> per character, which is also the class \<open>\s\<close> of \<open>re\<close> on \<open>str\<close>
  patterns and the separator set of \<open>str.split()\<close> and \<open>str.strip()\<close>.
\<close>

definition is_space :: "nat \<Rightarrow> bool" where
  "is_space c \<longleftrightarrow>
     (9 \<le> c \<and> c \<le> 13) \<or> (28 \<le> c \<and> c \<le> 32) \<or> c = 133 \<or> c = 160 \<or> c = 5760 \<or>
     (8192 \<le> c \<and> c \<le> 8202) \<or> c = 8232 \<or> c = 8233 \<or> c = 8239 \<or> c = 8287 \<or>
     c = 12288"

text \<open>
  \<open>str.lower\<close>, character by character, on the blocks Basic Latin, Latin-1 Supplement and
  Cyrillic (U+0400 to U+04FF), which hold the Russian and English text the bot works on.
  Code points outside these blocks are left as they are.
\<close>

definition lower_cp :: "nat \<Rightarrow> nat" where
  "lower_cp c =
     (if 65 \<le> c \<and> c \<le> 90 then c + 32
      else if 192 \<le> c \<and> c \<le> 222 \<and> c \<noteq> 215 then c + 32
      else if 1024 \<le> c \<and> c \<le> 1039 then c + 80
      else if 1040 \<le> c \<and> c \<le> 1071 then c + 32
      else if 1120 \<le> c \<and> c \<le> 1153 \<and> even c then c + 1
      else if 1162 \<le> c \<and> c \<le> 1215 \<and> even c then c + 1
      else if c = 1216 then 1231
      else if 1217 \<le> c \<and> c \<le> 1230 \<and> odd c then c + 1
      else if 1232 \<le> c \<and> c \<le> 1279 \<and> even c then c + 1
      else c)"

definition lower :: "ustr \<Rightarrow> ustr" where
  "lower s = map lower_cp s"

text \<open>\<open>str.strip()\<close>: leading and trailing whitespace removed.\<close>

definition strip :: "ustr \<Rightarrow> ustr" where
  "strip s = rev (dropWhile is_space (rev (dropWhile is_space s)))"

text \<open>\<open>sub in text\<close> on strings: \<open>sub\<close> occurs in \<open>text\<close> as a contiguous run.\<close>

fun starts_with :: "ustr \<Rightarrow> ustr \<Rightarrow> bool" where
  "starts_with [] t = True"
| "starts_with (p # ps) [] = False"
| "starts_with (p # ps) (c # cs) = (p = c \<and> starts_with ps cs)"

fun contains :: "ustr \<Rightarrow> ustr \<Rightarrow> bool" where
  "contains sub [] = (sub = [])"
| "contains sub (c # cs) = (starts_with sub (c # cs) \<or> contains sub cs)"

section \<open>Knowledge base: retrieval and the quality gate\<close>

text \<open>
  The vector store is outside the repository. A query returns the parallel lists
  \<open>documents\<close>, \<open>distances\<close> and \<open>metadatas\<close>; \<open>None\<close> stands for a call that raises.
  Distances are the real values of the floats the store returns.
\<close>

type_synonym metadata = "(ustr \<times> ustr) list"

record doc =
  content :: ustr
  metadata :: metadata
  distance :: real

record store =
  store_count :: "nat option"
  store_query :: "ustr \<Rightarrow> int \<Rightarrow> (ustr list \<times> real list \<times> metadata option list) option"

text \<open>
  The loop of \<open>search_relevant_docs\<close> over \<open>enumerate(zip(documents, distances))\<close>:
  a pair is kept when its distance is below 0.9; its metadata is \<open>metadatas[i]\<close> when
  that exists and is not empty, and the empty dictionary otherwise.
\<close>

definition metadata_at :: "metadata option list \<Rightarrow> nat \<Rightarrow> metadata" where
  "metadata_at metadatas i =
     (if i < length metadatas then (case metadatas ! i of Some m \<Rightarrow> m | None \<Rightarrow> []) else [])"

fun relevant_loop :: "metadata option list \<Rightarrow> nat \<Rightarrow> (ustr \<times> real) list \<Rightarrow> doc list" where
  "relevant_loop metadatas i [] = []"
| "relevant_loop metadatas i ((d, dis) # rest) =
     (if dis < 9 / 10
      then \<lparr>content = d, metadata = metadata_at metadatas i, distance = dis\<rparr>
             # relevant_loop metadatas (Suc i) rest
      else relevant_loop metadatas (Suc i) rest)"

definition search_relevant_docs :: "store \<Rightarrow> ustr \<Rightarrow> int \<Rightarrow> doc list" where
  "search_relevant_docs st query_text n_results =
     (if query_text = [] \<or> strip query_text = [] then []
      else case store_count st of
        None \<Rightarrow> []
      | Some collection_count \<Rightarrow>
          if collection_count = 0 then []
          else (case store_query st query_text (min n_results (int collection_count)) of
                  None \<Rightarrow> []
                | Some (documents, distances, metadatas) \<Rightarrow>
                    relevant_loop metadatas 0 (zip documents distances)))"

text \<open>\<open>procedural_keywords\<close> (transliterated): kak poluchit, kak oformit, kak podat, kak zaregistrirovat, kakie dokumenty, kakie spravki, gde poluchit, kuda obratitsya, protsedura, poryadok, instruktsiya, poshagovo, algoritm, litsenziya, razreshenie, spravka, registratsiya, oformlenie.\<close>

definition procedural_keywords :: "ustr list" where
  "procedural_keywords = [
    [1082, 1072, 1082, 32, 1087, 1086, 1083, 1091, 1095, 1080, 1090, 1100],
    [1082, 1072, 1082, 32, 1086, 1092, 1086, 1088, 1084, 1080, 1090, 1100],
    [1082, 1072, 1082, 32, 1087, 1086, 1076, 1072, 1090, 1100],
    [1082, 1072, 1082, 32, 1079, 1072, 1088, 1077, 1075, 1080, 1089, 1090, 1088, 1080, 1088, 1086, 1074, 1072, 1090, 1100],
    [1082, 1072, 1082, 1080, 1077, 32, 1076, 1086, 1082, 1091, 1084, 1077, 1085, 1090, 1099],
    [1082, 1072, 1082, 1080, 1077, 32, 1089, 1087, 1088, 1072, 1074, 1082, 1080],
    [1075, 1076, 1077, 32, 1087, 1086, 1083, 1091, 1095, 1080, 1090, 1100],
    [1082, 1091, 1076, 1072, 32, 1086, 1073, 1088, 1072, 1090, 1080, 1090, 1100, 1089, 1103],
    [1087, 1088, 1086, 1094, 1077, 1076, 1091, 1088, 1072],
    [1087, 1086, 1088, 1103, 1076, 1086, 1082],
    [1080, 1085, 1089, 1090, 1088, 1091, 1082, 1094, 1080, 1103],
    [1087, 1086, 1096, 1072, 1075, 1086, 1074, 1086],
    [1072, 1083, 1075, 1086, 1088, 1080, 1090, 1084],
    [1083, 1080, 1094, 1077, 1085, 1079, 1080, 1103],
    [1088, 1072, 1079, 1088, 1077, 1096, 1077, 1085, 1080, 1077],
    [1089, 1087, 1088, 1072, 1074, 1082, 1072],
    [1088, 1077, 1075, 1080, 1089, 1090, 1088, 1072, 1094, 1080, 1103],
    [1086, 1092, 1086, 1088, 1084, 1083, 1077, 1085, 1080, 1077]
  ]"

text \<open>\<open>bot_keywords\<close> (transliterated): bot, ne rabotaet, ne otvechaet, ne obrashchaetsya, oshibka, pravo.by, sajt, poisk, dinamicheskij.\<close>

definition bot_keywords :: "ustr list" where
  "bot_keywords = [
    [1073, 1086, 1090],
    [1085, 1077, 32, 1088, 1072, 1073, 1086, 1090, 1072, 1077, 1090],
    [1085, 1077, 32, 1086, 1090, 1074, 1077, 1095, 1072, 1077, 1090],
    [1085, 1077, 32, 1086, 1073, 1088, 1072, 1097, 1072, 1077, 1090, 1089, 1103],
    [1086, 1096, 1080, 1073, 1082, 1072],
    [112, 114, 97, 118, 111, 46, 98, 121],
    [1089, 1072, 1081, 1090],
    [1087, 1086, 1080, 1089, 1082],
    [1076, 1080, 1085, 1072, 1084, 1080, 1095, 1077, 1089, 1082, 1080, 1081]
  ]"

text \<open>\<open>procedural_content_keywords\<close> (transliterated): protsedura, poryadok, instruktsiya, algoritm, poshagovo, dokumenty, spravka, zayavlenie, podacha, poluchenie, registratsiya, oformlenie, litsenziya, razreshenie.\<close>

definition procedural_content_keywords :: "ustr list" where
  "procedural_content_keywords = [
    [1087, 1088, 1086, 1094, 1077, 1076, 1091, 1088, 1072],
    [1087, 1086, 1088, 1103, 1076, 1086, 1082],
    [1080, 1085, 1089, 1090, 1088, 1091, 1082, 1094, 1080, 1103],
    [1072, 1083, 1075, 1086, 1088, 1080, 1090, 1084],
    [1087, 1086, 1096, 1072, 1075, 1086, 1074, 1086],
    [1076, 1086, 1082, 1091, 1084, 1077, 1085, 1090, 1099],
    [1089, 1087, 1088, 1072, 1074, 1082, 1072],
    [1079, 1072, 1103, 1074, 1083, 1077, 1085, 1080, 1077],
    [1087, 1086, 1076, 1072, 1095, 1072],
    [1087, 1086, 1083, 1091, 1095, 1077, 1085, 1080, 1077],
    [1088, 1077, 1075, 1080, 1089, 1090, 1088, 1072, 1094, 1080, 1103],
    [1086, 1092, 1086, 1088, 1084, 1083, 1077, 1085, 1080, 1077],
    [1083, 1080, 1094, 1077, 1085, 1079, 1080, 1103],
    [1088, 1072, 1079, 1088, 1077, 1096, 1077, 1085, 1080, 1077]
  ]"
text \<open>\<open>min(doc['distance'] for doc in relevant_docs)\<close> on a list that is not empty.\<close>

fun best_distance :: "doc list \<Rightarrow> real" where
  "best_distance [] = 0"
| "best_distance [d] = distance d"
| "best_distance (d # ds) = min (distance d) (best_distance ds)"

definition is_procedural :: "ustr \<Rightarrow> bool" where
  "is_procedural query_text = list_ex (\<lambda>keyword. contains keyword (lower query_text)) procedural_keywords"

definition is_bot_related :: "ustr \<Rightarrow> bool" where
  "is_bot_related query_text = list_ex (\<lambda>keyword. contains keyword (lower query_text)) bot_keywords"

definition has_procedural_content :: "ustr \<Rightarrow> bool" where
  "has_procedural_content doc_content =
     list_ex (\<lambda>keyword. contains keyword (lower doc_content)) procedural_content_keywords"

text \<open>
  \<open>should_use_dynamic_search\<close> returns the pair (needs dynamic search, documents). Its
  \<open>except\<close> branch is not reached: \<open>search_relevant_docs\<close> catches its own exceptions,
  and the rest works on the strings and distances of the documents it returned.
\<close>

definition should_use_dynamic_search :: "store \<Rightarrow> ustr \<Rightarrow> int \<Rightarrow> bool \<times> doc list" where
  "should_use_dynamic_search st query_text n_results =
     (let relevant_docs = search_relevant_docs st query_text n_results in
      if relevant_docs = [] then (True, [])
      else if is_bot_related query_text then (False, relevant_docs)
      else if is_procedural query_text then
        (if \<not> has_procedural_content (content (hd relevant_docs))
            \<or> best_distance relevant_docs > 35 / 100
         then (True, relevant_docs)
         else (False, relevant_docs))
      else if best_distance relevant_docs > 6 / 10 then (True, relevant_docs)
      else (False, relevant_docs))"

section \<open>Regular expressions\<close>

text \<open>
  The part of Python's \<open>re\<close> that the patterns of the repository use: literal
  characters, character sets, the classes \<open>\d\<close> and \<open>\s\<close>, greedy repetition of one of
  these, and an alternation of literal words. \<open>\d\<close> on a \<open>str\<close> pattern is any Unicode
  decimal digit; the digits of a script are ten consecutive code points, and
  \<open>digit_zeros\<close> lists the zero of every script.
\<close>

definition digit_zeros :: "nat list" where
  "digit_zeros = [48, 1632, 1776, 1984, 2406, 2534, 2662, 2790, 2918, 3046, 3174, 3302, 3430,
     3558, 3664, 3792, 3872, 4160, 4240, 6112, 6160, 6470, 6608, 6784, 6800, 6992, 7088, 7232,
     7248, 42528, 43216, 43264, 43472, 43504, 43600, 44016, 65296, 66720, 68912, 69734, 69872,
     69942, 70096, 70384, 70736, 70864, 71248, 71360, 71472, 71904, 72016, 72784, 73040, 73120,
     92768, 92864, 93008, 120782, 120792, 120802, 120812, 120822, 123200, 123632, 125264,
     130032]"

definition is_digit :: "nat \<Rightarrow> bool" where
  "is_digit c = list_ex (\<lambda>z. z \<le> c \<and> c < z + 10) digit_zeros"

datatype atom = Chr nat | One_of "nat list" | Digit | Space

datatype item = Atom atom | Rep atom nat "nat option" | Alt "ustr list"

type_synonym regex = "item list"

text \<open>
  Whether a character matches an atom. With \<open>re.IGNORECASE\<close> (the flag \<open>ic\<close>) a
  literal character matches the characters with the same lower case.
\<close>

definition same_char :: "bool \<Rightarrow> nat \<Rightarrow> nat \<Rightarrow> bool" where
  "same_char ic p c = (if ic then lower_cp c = lower_cp p else c = p)"

fun atom_match :: "bool \<Rightarrow> atom \<Rightarrow> nat \<Rightarrow> bool" where
  "atom_match ic (Chr p) c = same_char ic p c"
| "atom_match ic (One_of ps) c = list_ex (\<lambda>p. same_char ic p c) ps"
| "atom_match ic Digit c = is_digit c"
| "atom_match ic Space c = is_space c"

fun word_here :: "bool \<Rightarrow> ustr \<Rightarrow> ustr \<Rightarrow> bool" where
  "word_here ic [] s = True"
| "word_here ic (p # ps) [] = False"
| "word_here ic (p # ps) (c # cs) = (same_char ic p c \<and> word_here ic ps cs)"

text \<open>The number of leading characters of \<open>s\<close> that match \<open>a\<close>, at most \<open>limit\<close> of them.\<close>

fun run_length :: "bool \<Rightarrow> atom \<Rightarrow> nat option \<Rightarrow> ustr \<Rightarrow> nat" where
  "run_length ic a limit [] = 0"
| "run_length ic a limit (c # cs) =
     (if limit = Some 0 \<or> \<not> atom_match ic a c then 0
      else Suc (run_length ic a (map_option (\<lambda>n. n - 1) limit) cs))"

text \<open>
  \<open>match_lengths ic rx s\<close>: the lengths of the prefixes of \<open>s\<close> that \<open>rx\<close> matches, in
  the order in which the backtracking matcher finds them: a repetition tries its longest
  run first, an alternation its words from left to right. The match that \<open>re\<close> reports
  at a position is the first of the list.
\<close>

fun match_lengths :: "bool \<Rightarrow> regex \<Rightarrow> ustr \<Rightarrow> nat list" where
  "match_lengths ic [] s = [0]"
| "match_lengths ic (Atom a # rx) s =
     (case s of
        [] \<Rightarrow> []
      | c # cs \<Rightarrow> if atom_match ic a c then map Suc (match_lengths ic rx cs) else [])"
| "match_lengths ic (Rep a lo hi # rx) s =
     concat (map (\<lambda>k. map (\<lambda>n. k + n) (match_lengths ic rx (drop k s)))
               (rev [lo ..< Suc (run_length ic a hi s)]))"
| "match_lengths ic (Alt ws # rx) s =
     concat (map (\<lambda>w. if word_here ic w s
                        then map (\<lambda>n. length w + n) (match_lengths ic rx (drop (length w) s))
                        else []) ws)"

text \<open>
  \<open>len(re.findall(rx, s))\<close>: the matches are searched from left to right and do not
  overlap. The counter \<open>skip\<close> is the number of characters still covered by the last
  match.
\<close>

fun findall_count :: "bool \<Rightarrow> regex \<Rightarrow> nat \<Rightarrow> ustr \<Rightarrow> nat" where
  "findall_count ic rx skip [] = (if skip = 0 \<and> match_lengths ic rx [] \<noteq> [] then 1 else 0)"
| "findall_count ic rx skip (c # cs) =
     (if 0 < skip then findall_count ic rx (skip - 1) cs
      else (case match_lengths ic rx (c # cs) of
              [] \<Rightarrow> findall_count ic rx 0 cs
            | n # ns \<Rightarrow> Suc (findall_count ic rx (n - 1) cs)))"

text \<open>\<open>re.search(rx, s)\<close> finds a match.\<close>

fun search :: "bool \<Rightarrow> regex \<Rightarrow> ustr \<Rightarrow> bool" where
  "search ic rx [] = (match_lengths ic rx [] \<noteq> [])"
| "search ic rx (c # cs) = (match_lengths ic rx (c # cs) \<noteq> [] \<or> search ic rx cs)"

definition literal :: "ustr \<Rightarrow> regex" where
  "literal w = map (\<lambda>c. Atom (Chr c)) w"

section \<open>Legal content filter\<close>

text \<open>\<open>legal_keywords\<close>, by category (transliterated):
  \<^item> \<open>core_legal\<close>: zakon, kodeks, statya, punkt, chast, glava, razdel, postanovlenie, ukaz, dekret, reshenie, opredelenie, pravo, obyazannost, otvetstvennost, narushenie, shtraf, sud, sudebnyj, pravosudie, isk, istets, otvetchik, dogovor, soglashenie, kontrakt, sdelka, obyazatelstvo, sobstvennost, imushchestvo, nasledstvo, zaveshchanie, registratsiya, litsenziya, razreshenie, uvedomlenie;
  \<^item> \<open>belarus_legal\<close>: respublika belarus, belarus, rb, belorusskij, sovet ministrov, prezident, parlament, palata predstavitelej, sovet respubliki, konstitutsionnyj sud, verkhovnyj sud, ministerstvo yustitsii, generalnaya prokuratura, natsionalnyj bank, komitet gosudarstvennogo kontrolya;
  \<^item> \<open>law_branches\<close>: grazhdanskoe pravo, trudovoe pravo, semejnoe pravo, administrativnoe pravo, ugolovnoe pravo, nalogovoe pravo, khozyajstvennoe pravo, zemelnoe pravo, ekologicheskoe pravo, zhilishchnoe pravo, nasledstvennoe pravo, avtorskoe pravo, patentnoe pravo, bankovskoe pravo, strakhovoe pravo;
  \<^item> \<open>legal_procedures\<close>: registratsiya, litsenzirovanie, sertifikatsiya, akkreditatsiya, sudoproizvodstvo, arbitrazh, mediatsiya, notariat, ispolnitelnoe proizvodstvo, bankrotstvo, likvidatsiya, reorganizatsiya, sliyanie, pogloshchenie, audit;
  \<^item> \<open>legal_entities\<close>: fizicheskoe litso, yuridicheskoe litso, individualnyj predprinimatel, obshchestvo s ogranichennoj otvetstvennostyu, aktsionernoe obshchestvo, unitarnoe predpriyatie, uchrezhdenie, organizatsiya, gosudarstvennyj organ, mestnyj organ, dolzhnostnoe litso;
  \<^item> \<open>legal_documents\<close>: pasport, udostoverenie, spravka, vypiska, kopiya, zayavlenie, zhaloba, khodatajstvo, protokol, akt, prikaz, rasporyazhenie, instruktsiya, polozhenie, ustav.
\<close>

definition legal_keywords :: "(ustr \<times> ustr list) list" where
  "legal_keywords = [
    ([99, 111, 114, 101, 95, 108, 101, 103, 97, 108], [
      [1079, 1072, 1082, 1086, 1085],
      [1082, 1086, 1076, 1077, 1082, 1089],
      [1089, 1090, 1072, 1090, 1100, 1103],
      [1087, 1091, 1085, 1082, 1090],
      [1095, 1072, 1089, 1090, 1100],
      [1075, 1083, 1072, 1074, 1072],
      [1088, 1072, 1079, 1076, 1077, 1083],
      [1087, 1086, 1089, 1090, 1072, 1085, 1086, 1074, 1083, 1077, 1085, 1080, 1077],
      [1091, 1082, 1072, 1079],
      [1076, 1077, 1082, 1088, 1077, 1090],
      [1088, 1077, 1096, 1077, 1085, 1080, 1077],
      [1086, 1087, 1088, 1077, 1076, 1077, 1083, 1077, 1085, 1080, 1077],
      [1087, 1088, 1072, 1074, 1086],
      [1086, 1073, 1103, 1079, 1072, 1085, 1085, 1086, 1089, 1090, 1100],
      [1086, 1090, 1074, 1077, 1090, 1089, 1090, 1074, 1077, 1085, 1085, 1086, 1089, 1090, 1100],
      [1085, 1072, 1088, 1091, 1096, 1077, 1085, 1080, 1077],
      [1096, 1090, 1088, 1072, 1092],
      [1089, 1091, 1076],
      [1089, 1091, 1076, 1077, 1073, 1085, 1099, 1081],
      [1087, 1088, 1072, 1074, 1086, 1089, 1091, 1076, 1080, 1077],
      [1080, 1089, 1082],
      [1080, 1089, 1090, 1077, 1094],
      [1086, 1090, 1074, 1077, 1090, 1095, 1080, 1082],
      [1076, 1086, 1075, 1086, 1074, 1086, 1088],
      [1089, 1086, 1075, 1083, 1072, 1096, 1077, 1085, 1080, 1077],
      [1082, 1086, 1085, 1090, 1088, 1072, 1082, 1090],
      [1089, 1076, 1077, 1083, 1082, 1072],
      [1086, 1073, 1103, 1079, 1072, 1090, 1077, 1083, 1100, 1089, 1090, 1074, 1086],
      [1089, 1086, 1073, 1089, 1090, 1074, 1077, 1085, 1085, 1086, 1089, 1090, 1100],
      [1080, 1084, 1091, 1097, 1077, 1089, 1090, 1074, 1086],
      [1085, 1072, 1089, 1083, 1077, 1076, 1089, 1090, 1074, 1086],
      [1079, 1072, 1074, 1077, 1097, 1072, 1085, 1080, 1077],
      [1088, 1077, 1075, 1080, 1089, 1090, 1088, 1072, 1094, 1080, 1103],
      [1083, 1080, 1094, 1077, 1085, 1079, 1080, 1103],
      [1088, 1072, 1079, 1088, 1077, 1096, 1077, 1085, 1080, 1077],
      [1091, 1074, 1077, 1076, 1086, 1084, 1083, 1077, 1085, 1080, 1077]
    ]),
    ([98, 101, 108, 97, 114, 117, 115, 95, 108, 101, 103, 97, 108], [
      [1088, 1077, 1089, 1087, 1091, 1073, 1083, 1080, 1082, 1072, 32, 1073, 1077, 1083, 1072, 1088, 1091, 1089, 1100],
      [1073, 1077, 1083, 1072, 1088, 1091, 1089, 1100],
      [1088, 1073],
      [1073, 1077, 1083, 1086, 1088, 1091, 1089, 1089, 1082, 1080, 1081],
      [1089, 1086, 1074, 1077, 1090, 32, 1084, 1080, 1085, 1080, 1089, 1090, 1088, 1086, 1074],
      [1087, 1088, 1077, 1079, 1080, 1076, 1077, 1085, 1090],
      [1087, 1072, 1088, 1083, 1072, 1084, 1077, 1085, 1090],
      [1087, 1072, 1083, 1072, 1090, 1072, 32, 1087, 1088, 1077, 1076, 1089, 1090, 1072, 1074, 1080, 1090, 1077, 1083, 1077, 1081],
      [1089, 1086, 1074, 1077, 1090, 32, 1088, 1077, 1089, 1087, 1091, 1073, 1083, 1080, 1082, 1080],
      [1082, 1086, 1085, 1089, 1090, 1080, 1090, 1091, 1094, 1080, 1086, 1085, 1085, 1099, 1081, 32, 1089, 1091, 1076],
      [1074, 1077, 1088, 1093, 1086, 1074, 1085, 1099, 1081, 32, 1089, 1091, 1076],
      [1084, 1080, 1085, 1080, 1089, 1090, 1077, 1088, 1089, 1090, 1074, 1086, 32, 1102, 1089, 1090, 1080, 1094, 1080, 1080],
      [1075, 1077, 1085, 1077, 1088, 1072, 1083, 1100, 1085, 1072, 1103, 32, 1087, 1088, 1086, 1082, 1091, 1088, 1072, 1090, 1091, 1088, 1072],
      [1085, 1072, 1094, 1080, 1086, 1085, 1072, 1083, 1100, 1085, 1099, 1081, 32, 1073, 1072, 1085, 1082],
      [1082, 1086, 1084, 1080, 1090, 1077, 1090, 32, 1075, 1086, 1089, 1091, 1076, 1072, 1088, 1089, 1090, 1074, 1077, 1085, 1085, 1086, 1075, 1086, 32, 1082, 1086, 1085, 1090, 1088, 1086, 1083, 1103]
    ]),
    ([108, 97, 119, 95, 98, 114, 97, 110, 99, 104, 101, 115], [
      [1075, 1088, 1072, 1078, 1076, 1072, 1085, 1089, 1082, 1086, 1077, 32, 1087, 1088, 1072, 1074, 1086],
      [1090, 1088, 1091, 1076, 1086, 1074, 1086, 1077, 32, 1087, 1088, 1072, 1074, 1086],
      [1089, 1077, 1084, 1077, 1081, 1085, 1086, 1077, 32, 1087, 1088, 1072, 1074, 1086],
      [1072, 1076, 1084, 1080, 1085, 1080, 1089, 1090, 1088, 1072, 1090, 1080, 1074, 1085, 1086, 1077, 32, 1087, 1088, 1072, 1074, 1086],
      [1091, 1075, 1086, 1083, 1086, 1074, 1085, 1086, 1077, 32, 1087, 1088, 1072, 1074, 1086],
      [1085, 1072, 1083, 1086, 1075, 1086, 1074, 1086, 1077, 32, 1087, 1088, 1072, 1074, 1086],
      [1093, 1086, 1079, 1103, 1081, 1089, 1090, 1074, 1077, 1085, 1085, 1086, 1077, 32, 1087, 1088, 1072, 1074, 1086],
      [1079, 1077, 1084, 1077, 1083, 1100, 1085, 1086, 1077, 32, 1087, 1088, 1072, 1074, 1086],
      [1101, 1082, 1086, 1083, 1086, 1075, 1080, 1095, 1077, 1089, 1082, 1086, 1077, 32, 1087, 1088, 1072, 1074, 1086],
      [1078, 1080, 1083, 1080, 1097, 1085, 1086, 1077, 32, 1087, 1088, 1072, 1074, 1086],
      [1085, 1072, 1089, 1083, 1077, 1076, 1089, 1090, 1074, 1077, 1085, 1085, 1086, 1077, 32, 1087, 1088, 1072, 1074, 1086],
      [1072, 1074, 1090, 1086, 1088, 1089, 1082, 1086, 1077, 32, 1087, 1088, 1072, 1074, 1086],
      [1087, 1072, 1090, 1077, 1085, 1090, 1085, 1086, 1077, 32, 1087, 1088, 1072, 1074, 1086],
      [1073, 1072, 1085, 1082, 1086, 1074, 1089, 1082, 1086, 1077, 32, 1087, 1088, 1072, 1074, 1086],
      [1089, 1090, 1088, 1072, 1093, 1086, 1074, 1086, 1077, 32, 1087, 1088, 1072, 1074, 1086]
    ]),
    ([108, 101, 103, 97, 108, 95, 112, 114, 111, 99, 101, 100, 117, 114, 101, 115], [
      [1088, 1077, 1075, 1080, 1089, 1090, 1088, 1072, 1094, 1080, 1103],
      [1083, 1080, 1094, 1077, 1085, 1079, 1080, 1088, 1086, 1074, 1072, 1085, 1080, 1077],
      [1089, 1077, 1088, 1090, 1080, 1092, 1080, 1082, 1072, 1094, 1080, 1103],
      [1072, 1082, 1082, 1088, 1077, 1076, 1080, 1090, 1072, 1094, 1080, 1103],
      [1089, 1091, 1076, 1086, 1087, 1088, 1086, 1080, 1079, 1074, 1086, 1076, 1089, 1090, 1074, 1086],
      [1072, 1088, 1073, 1080, 1090, 1088, 1072, 1078],
      [1084, 1077, 1076, 1080, 1072, 1094, 1080, 1103],
      [1085, 1086, 1090, 1072, 1088, 1080, 1072, 1090],
      [1080, 1089, 1087, 1086, 1083, 1085, 1080, 1090, 1077, 1083, 1100, 1085, 1086, 1077, 32, 1087, 1088, 1086, 1080, 1079, 1074, 1086, 1076, 1089, 1090, 1074, 1086],
      [1073, 1072, 1085, 1082, 1088, 1086, 1090, 1089, 1090, 1074, 1086],
      [1083, 1080, 1082, 1074, 1080, 1076, 1072, 1094, 1080, 1103],
      [1088, 1077, 1086, 1088, 1075, 1072, 1085, 1080, 1079, 1072, 1094, 1080, 1103],
      [1089, 1083, 1080, 1103, 1085, 1080, 1077],
      [1087, 1086, 1075, 1083, 1086, 1097, 1077, 1085, 1080, 1077],
      [1072, 1091, 1076, 1080, 1090]
    ]),
    ([108, 101, 103, 97, 108, 95, 101, 110, 116, 105, 116, 105, 101, 115], [
      [1092, 1080, 1079, 1080, 1095, 1077, 1089, 1082, 1086, 1077, 32, 1083, 1080, 1094, 1086],
      [1102, 1088, 1080, 1076, 1080, 1095, 1077, 1089, 1082, 1086, 1077, 32, 1083, 1080, 1094, 1086],
      [1080, 1085, 1076, 1080, 1074, 1080, 1076, 1091, 1072, 1083, 1100, 1085, 1099, 1081, 32, 1087, 1088, 1077, 1076, 1087, 1088, 1080, 1085, 1080, 1084, 1072, 1090, 1077, 1083, 1100],
      [1086, 1073, 1097, 1077, 1089, 1090, 1074, 1086, 32, 1089, 32, 1086, 1075, 1088, 1072, 1085, 1080, 1095, 1077, 1085, 1085, 1086, 1081, 32, 1086, 1090, 1074, 1077, 1090, 1089, 1090, 1074, 1077, 1085, 1085, 1086, 1089, 1090, 1100, 1102],
      [1072, 1082, 1094, 1080, 1086, 1085, 1077, 1088, 1085, 1086, 1077, 32, 1086, 1073, 1097, 1077, 1089, 1090, 1074, 1086],
      [1091, 1085, 1080, 1090, 1072, 1088, 1085, 1086, 1077, 32, 1087, 1088, 1077, 1076, 1087, 1088, 1080, 1103, 1090, 1080, 1077],
      [1091, 1095, 1088, 1077, 1078, 1076, 1077, 1085, 1080, 1077],
      [1086, 1088, 1075, 1072, 1085, 1080, 1079, 1072, 1094, 1080, 1103],
      [1075, 1086, 1089, 1091, 1076, 1072, 1088, 1089, 1090, 1074, 1077, 1085, 1085, 1099, 1081, 32, 1086, 1088, 1075, 1072, 1085],
      [1084, 1077, 1089, 1090, 1085, 1099, 1081, 32, 1086, 1088, 1075, 1072, 1085],
      [1076, 1086, 1083, 1078, 1085, 1086, 1089, 1090, 1085, 1086, 1077, 32, 1083, 1080, 1094, 1086]
    ]),
    ([108, 101, 103, 97, 108, 95, 100, 111, 99, 117, 109, 101, 110, 116, 115], [
      [1087, 1072, 1089, 1087, 1086, 1088, 1090],
      [1091, 1076, 1086, 1089, 1090, 1086, 1074, 1077, 1088, 1077, 1085, 1080, 1077],
      [1089, 1087, 1088, 1072, 1074, 1082, 1072],
      [1074, 1099, 1087, 1080, 1089, 1082, 1072],
      [1082, 1086, 1087, 1080, 1103],
      [1079, 1072, 1103, 1074, 1083, 1077, 1085, 1080, 1077],
      [1078, 1072, 1083, 1086, 1073, 1072],
      [1093, 1086, 1076, 1072, 1090, 1072, 1081, 1089, 1090, 1074, 1086],
      [1087, 1088, 1086, 1090, 1086, 1082, 1086, 1083],
      [1072, 1082, 1090],
      [1087, 1088, 1080, 1082, 1072, 1079],
      [1088, 1072, 1089, 1087, 1086, 1088, 1103, 1078, 1077, 1085, 1080, 1077],
      [1080, 1085, 1089, 1090, 1088, 1091, 1082, 1094, 1080, 1103],
      [1087, 1086, 1083, 1086, 1078, 1077, 1085, 1080, 1077],
      [1091, 1089, 1090, 1072, 1074]
    ])
  ]"

text \<open>The weights of the categories: core_legal 0.3, belarus_legal 0.25, law_branches 0.2, legal_procedures 0.15, legal_entities 0.1, legal_documents 0.05.\<close>

definition weights :: "(ustr \<times> real) list" where
  "weights = [
    ([99, 111, 114, 101, 95, 108, 101, 103, 97, 108], 3 / 10),
    ([98, 101, 108, 97, 114, 117, 115, 95, 108, 101, 103, 97, 108], 1 / 4),
    ([108, 97, 119, 95, 98, 114, 97, 110, 99, 104, 101, 115], 1 / 5),
    ([108, 101, 103, 97, 108, 95, 112, 114, 111, 99, 101, 100, 117, 114, 101, 115], 3 / 20),
    ([108, 101, 103, 97, 108, 95, 101, 110, 116, 105, 116, 105, 101, 115], 1 / 10),
    ([108, 101, 103, 97, 108, 95, 100, 111, 99, 117, 109, 101, 110, 116, 115], 1 / 20)
  ]"

text \<open>\<open>legal_patterns\<close> (transliterated): \<^verbatim>\<open>stat[yai]\s*\d+\<close>, \<^verbatim>\<open>punkt\s*\d+\<close>, \<^verbatim>\<open>chast[i]\s*\d+\<close>, \<^verbatim>\<open>glav[ae]\s*\d+\<close>, \<^verbatim>\<open>razdel\s*\d+\<close>, \<^verbatim>\<open>podpunkt\s*\d+\.\d+\<close>, \<^verbatim>\<open>abzats\s*\d+\<close>, \<^verbatim>\<open>No\s*\d+\<close>, \<^verbatim>\<open>ot\s*\d{1,2}\.\d{1,2}\.\d{4}\<close>, \<^verbatim>\<open>v redaktsii\<close>, \<^verbatim>\<open>s izmeneniyami\<close>, \<^verbatim>\<open>utratil silu\<close>, \<^verbatim>\<open>vstupaet v silu\<close>, \<^verbatim>\<open>v sootvetstvii s\<close>, \<^verbatim>\<open>soglasno\<close>, \<^verbatim>\<open>na osnovanii\<close>, \<^verbatim>\<open>v poryadke\<close>, \<^verbatim>\<open>ne pozdnee\<close>, \<^verbatim>\<open>v techenie\<close>, \<^verbatim>\<open>podlezhit\<close>, \<^verbatim>\<open>obyazan\<close>, \<^verbatim>\<open>vprave\<close>, \<^verbatim>\<open>imeet pravo\<close>, \<^verbatim>\<open>neset otvetstvennost\<close>, \<^verbatim>\<open>shtraf\s*v razmere\<close>, \<^verbatim>\<open>bazovykh velichin\<close>, \<^verbatim>\<open>belorusskikh rublej\<close>.\<close>

definition legal_patterns :: "regex list" where
  "legal_patterns = [
    [Atom (Chr 1089), Atom (Chr 1090), Atom (Chr 1072), Atom (Chr 1090), Atom (Chr 1100), Atom (One_of [1103, 1080]), Rep Space 0 None, Rep Digit 1 None],
    [Atom (Chr 1087), Atom (Chr 1091), Atom (Chr 1085), Atom (Chr 1082), Atom (Chr 1090), Rep Space 0 None, Rep Digit 1 None],
    [Atom (Chr 1095), Atom (Chr 1072), Atom (Chr 1089), Atom (Chr 1090), Atom (One_of [1100, 1080]), Rep Space 0 None, Rep Digit 1 None],
    [Atom (Chr 1075), Atom (Chr 1083), Atom (Chr 1072), Atom (Chr 1074), Atom (One_of [1072, 1077]), Rep Space 0 None, Rep Digit 1 None],
    [Atom (Chr 1088), Atom (Chr 1072), Atom (Chr 1079), Atom (Chr 1076), Atom (Chr 1077), Atom (Chr 1083), Rep Space 0 None, Rep Digit 1 None],
    [Atom (Chr 1087), Atom (Chr 1086), Atom (Chr 1076), Atom (Chr 1087), Atom (Chr 1091), Atom (Chr 1085), Atom (Chr 1082), Atom (Chr 1090), Rep Space 0 None, Rep Digit 1 None, Atom (Chr 46), Rep Digit 1 None],
    [Atom (Chr 1072), Atom (Chr 1073), Atom (Chr 1079), Atom (Chr 1072), Atom (Chr 1094), Rep Space 0 None, Rep Digit 1 None],
    [Atom (Chr 8470), Rep Space 0 None, Rep Digit 1 None],
    [Atom (Chr 1086), Atom (Chr 1090), Rep Space 0 None, Rep Digit 1 (Some 2), Atom (Chr 46), Rep Digit 1 (Some 2), Atom (Chr 46), Rep Digit 4 (Some 4)],
    [Atom (Chr 1074), Atom (Chr 32), Atom (Chr 1088), Atom (Chr 1077), Atom (Chr 1076), Atom (Chr 1072), Atom (Chr 1082), Atom (Chr 1094), Atom (Chr 1080), Atom (Chr 1080)],
    [Atom (Chr 1089), Atom (Chr 32), Atom (Chr 1080), Atom (Chr 1079), Atom (Chr 1084), Atom (Chr 1077), Atom (Chr 1085), Atom (Chr 1077), Atom (Chr 1085), Atom (Chr 1080), Atom (Chr 1103), Atom (Chr 1084), Atom (Chr 1080)],
    [Atom (Chr 1091), Atom (Chr 1090), Atom (Chr 1088), Atom (Chr 1072), Atom (Chr 1090), Atom (Chr 1080), Atom (Chr 1083), Atom (Chr 32), Atom (Chr 1089), Atom (Chr 1080), Atom (Chr 1083), Atom (Chr 1091)],
    [Atom (Chr 1074), Atom (Chr 1089), Atom (Chr 1090), Atom (Chr 1091), Atom (Chr 1087), Atom (Chr 1072), Atom (Chr 1077), Atom (Chr 1090), Atom (Chr 32), Atom (Chr 1074), Atom (Chr 32), Atom (Chr 1089), Atom (Chr 1080), Atom (Chr 1083), Atom (Chr 1091)],
    [Atom (Chr 1074), Atom (Chr 32), Atom (Chr 1089), Atom (Chr 1086), Atom (Chr 1086), Atom (Chr 1090), Atom (Chr 1074), Atom (Chr 1077), Atom (Chr 1090), Atom (Chr 1089), Atom (Chr 1090), Atom (Chr 1074), Atom (Chr 1080), Atom (Chr 1080), Atom (Chr 32), Atom (Chr 1089)],
    [Atom (Chr 1089), Atom (Chr 1086), Atom (Chr 1075), Atom (Chr 1083), Atom (Chr 1072), Atom (Chr 1089), Atom (Chr 1085), Atom (Chr 1086)],
    [Atom (Chr 1085), Atom (Chr 1072), Atom (Chr 32), Atom (Chr 1086), Atom (Chr 1089), Atom (Chr 1085), Atom (Chr 1086), Atom (Chr 1074), Atom (Chr 1072), Atom (Chr 1085), Atom (Chr 1080), Atom (Chr 1080)],
    [Atom (Chr 1074), Atom (Chr 32), Atom (Chr 1087), Atom (Chr 1086), Atom (Chr 1088), Atom (Chr 1103), Atom (Chr 1076), Atom (Chr 1082), Atom (Chr 1077)],
    [Atom (Chr 1085), Atom (Chr 1077), Atom (Chr 32), Atom (Chr 1087), Atom (Chr 1086), Atom (Chr 1079), Atom (Chr 1076), Atom (Chr 1085), Atom (Chr 1077), Atom (Chr 1077)],
    [Atom (Chr 1074), Atom (Chr 32), Atom (Chr 1090), Atom (Chr 1077), Atom (Chr 1095), Atom (Chr 1077), Atom (Chr 1085), Atom (Chr 1080), Atom (Chr 1077)],
    [Atom (Chr 1087), Atom (Chr 1086), Atom (Chr 1076), Atom (Chr 1083), Atom (Chr 1077), Atom (Chr 1078), Atom (Chr 1080), Atom (Chr 1090)],
    [Atom (Chr 1086), Atom (Chr 1073), Atom (Chr 1103), Atom (Chr 1079), Atom (Chr 1072), Atom (Chr 1085)],
    [Atom (Chr 1074), Atom (Chr 1087), Atom (Chr 1088), Atom (Chr 1072), Atom (Chr 1074), Atom (Chr 1077)],
    [Atom (Chr 1080), Atom (Chr 1084), Atom (Chr 1077), Atom (Chr 1077), Atom (Chr 1090), Atom (Chr 32), Atom (Chr 1087), Atom (Chr 1088), Atom (Chr 1072), Atom (Chr 1074), Atom (Chr 1086)],
    [Atom (Chr 1085), Atom (Chr 1077), Atom (Chr 1089), Atom (Chr 1077), Atom (Chr 1090), Atom (Chr 32), Atom (Chr 1086), Atom (Chr 1090), Atom (Chr 1074), Atom (Chr 1077), Atom (Chr 1090), Atom (Chr 1089), Atom (Chr 1090), Atom (Chr 1074), Atom (Chr 1077), Atom (Chr 1085), Atom (Chr 1085), Atom (Chr 1086), Atom (Chr 1089), Atom (Chr 1090), Atom (Chr 1100)],
    [Atom (Chr 1096), Atom (Chr 1090), Atom (Chr 1088), Atom (Chr 1072), Atom (Chr 1092), Rep Space 0 None, Atom (Chr 1074), Atom (Chr 32), Atom (Chr 1088), Atom (Chr 1072), Atom (Chr 1079), Atom (Chr 1084), Atom (Chr 1077), Atom (Chr 1088), Atom (Chr 1077)],
    [Atom (Chr 1073), Atom (Chr 1072), Atom (Chr 1079), Atom (Chr 1086), Atom (Chr 1074), Atom (Chr 1099), Atom (Chr 1093), Atom (Chr 32), Atom (Chr 1074), Atom (Chr 1077), Atom (Chr 1083), Atom (Chr 1080), Atom (Chr 1095), Atom (Chr 1080), Atom (Chr 1085)],
    [Atom (Chr 1073), Atom (Chr 1077), Atom (Chr 1083), Atom (Chr 1086), Atom (Chr 1088), Atom (Chr 1091), Atom (Chr 1089), Atom (Chr 1089), Atom (Chr 1082), Atom (Chr 1080), Atom (Chr 1093), Atom (Chr 32), Atom (Chr 1088), Atom (Chr 1091), Atom (Chr 1073), Atom (Chr 1083), Atom (Chr 1077), Atom (Chr 1081)]
  ]"

text \<open>\<open>non_legal_patterns\<close> (transliterated): retsept, kulinar, gotovit, prigotovlenie, sport, futbol, khokkej, pogoda, goroskop, razvlecheniya, kino, muzyka, igry, moda, krasota, zdorove, meditsina, lechenie, bolezn, turizm, puteshestvie, otdykh, reklama, skidka, rasprodazha, kupit, prodat, tsena, stoimost, tekhnologii, kompyuter, internet, sotsialnye seti.\<close>

definition non_legal_patterns :: "regex list" where
  "non_legal_patterns = map literal [
    [1088, 1077, 1094, 1077, 1087, 1090],
    [1082, 1091, 1083, 1080, 1085, 1072, 1088],
    [1075, 1086, 1090, 1086, 1074, 1080, 1090, 1100],
    [1087, 1088, 1080, 1075, 1086, 1090, 1086, 1074, 1083, 1077, 1085, 1080, 1077],
    [1089, 1087, 1086, 1088, 1090],
    [1092, 1091, 1090, 1073, 1086, 1083],
    [1093, 1086, 1082, 1082, 1077, 1081],
    [1087, 1086, 1075, 1086, 1076, 1072],
    [1075, 1086, 1088, 1086, 1089, 1082, 1086, 1087],
    [1088, 1072, 1079, 1074, 1083, 1077, 1095, 1077, 1085, 1080, 1103],
    [1082, 1080, 1085, 1086],
    [1084, 1091, 1079, 1099, 1082, 1072],
    [1080, 1075, 1088, 1099],
    [1084, 1086, 1076, 1072],
    [1082, 1088, 1072, 1089, 1086, 1090, 1072],
    [1079, 1076, 1086, 1088, 1086, 1074, 1100, 1077],
    [1084, 1077, 1076, 1080, 1094, 1080, 1085, 1072],
    [1083, 1077, 1095, 1077, 1085, 1080, 1077],
    [1073, 1086, 1083, 1077, 1079, 1085, 1100],
    [1090, 1091, 1088, 1080, 1079, 1084],
    [1087, 1091, 1090, 1077, 1096, 1077, 1089, 1090, 1074, 1080, 1077],
    [1086, 1090, 1076, 1099, 1093],
    [1088, 1077, 1082, 1083, 1072, 1084, 1072],
    [1089, 1082, 1080, 1076, 1082, 1072],
    [1088, 1072, 1089, 1087, 1088, 1086, 1076, 1072, 1078, 1072],
    [1082, 1091, 1087, 1080, 1090, 1100],
    [1087, 1088, 1086, 1076, 1072, 1090, 1100],
    [1094, 1077, 1085, 1072],
    [1089, 1090, 1086, 1080, 1084, 1086, 1089, 1090, 1100],
    [1090, 1077, 1093, 1085, 1086, 1083, 1086, 1075, 1080, 1080],
    [1082, 1086, 1084, 1087, 1100, 1102, 1090, 1077, 1088],
    [1080, 1085, 1090, 1077, 1088, 1085, 1077, 1090],
    [1089, 1086, 1094, 1080, 1072, 1083, 1100, 1085, 1099, 1077, 32, 1089, 1077, 1090, 1080]
  ]"

text \<open>\<open>legal_url_patterns\<close> (transliterated): pravo.by, law, legal, yuridicheskij, pravo, zakon, government, gov, ministerstvo, komitet, sovet.\<close>

definition legal_url_patterns :: "ustr list" where
  "legal_url_patterns = [
    [112, 114, 97, 118, 111, 46, 98, 121],
    [108, 97, 119],
    [108, 101, 103, 97, 108],
    [1102, 1088, 1080, 1076, 1080, 1095, 1077, 1089, 1082, 1080, 1081],
    [1087, 1088, 1072, 1074, 1086],
    [1079, 1072, 1082, 1086, 1085],
    [103, 111, 118, 101, 114, 110, 109, 101, 110, 116],
    [103, 111, 118],
    [1084, 1080, 1085, 1080, 1089, 1090, 1077, 1088, 1089, 1090, 1074, 1086],
    [1082, 1086, 1084, 1080, 1090, 1077, 1090],
    [1089, 1086, 1074, 1077, 1090]
  ]"

text \<open>\<open>legal_terms\<close> (transliterated): v sootvetstvii s, soglasno, na osnovanii, v poryadke, ne pozdnee, v techenie, podlezhit, obyazan, vprave, imeet pravo, neset otvetstvennost, ustanovlennyj, predusmotrennyj, opredelennyj, ukazannyj.\<close>

definition legal_terms :: "ustr list" where
  "legal_terms = [
    [1074, 32, 1089, 1086, 1086, 1090, 1074, 1077, 1090, 1089, 1090, 1074, 1080, 1080, 32, 1089],
    [1089, 1086, 1075, 1083, 1072, 1089, 1085, 1086],
    [1085, 1072, 32, 1086, 1089, 1085, 1086, 1074, 1072, 1085, 1080, 1080],
    [1074, 32, 1087, 1086, 1088, 1103, 1076, 1082, 1077],
    [1085, 1077, 32, 1087, 1086, 1079, 1076, 1085, 1077, 1077],
    [1074, 32, 1090, 1077, 1095, 1077, 1085, 1080, 1077],
    [1087, 1086, 1076, 1083, 1077, 1078, 1080, 1090],
    [1086, 1073, 1103, 1079, 1072, 1085],
    [1074, 1087, 1088, 1072, 1074, 1077],
    [1080, 1084, 1077, 1077, 1090, 32, 1087, 1088, 1072, 1074, 1086],
    [1085, 1077, 1089, 1077, 1090, 32, 1086, 1090, 1074, 1077, 1090, 1089, 1090, 1074, 1077, 1085, 1085, 1086, 1089, 1090, 1100],
    [1091, 1089, 1090, 1072, 1085, 1086, 1074, 1083, 1077, 1085, 1085, 1099, 1081],
    [1087, 1088, 1077, 1076, 1091, 1089, 1084, 1086, 1090, 1088, 1077, 1085, 1085, 1099, 1081],
    [1086, 1087, 1088, 1077, 1076, 1077, 1083, 1077, 1085, 1085, 1099, 1081],
    [1091, 1082, 1072, 1079, 1072, 1085, 1085, 1099, 1081]
  ]"

text \<open>\<open>official_words\<close> (transliterated): postanovlenie, dekret, ukaz, zakon, kodeks.\<close>

definition official_words :: "ustr list" where
  "official_words = [
    [1087, 1086, 1089, 1090, 1072, 1085, 1086, 1074, 1083, 1077, 1085, 1080, 1077],
    [1076, 1077, 1082, 1088, 1077, 1090],
    [1091, 1082, 1072, 1079],
    [1079, 1072, 1082, 1086, 1085],
    [1082, 1086, 1076, 1077, 1082, 1089]
  ]"

text \<open>
  The scores are computed in exact arithmetic; the source computes them in floating
  point. The explanation that \<open>is_legal_content\<close> returns is kept as a value, without
  the formatting of its numbers.
\<close>

definition min_legal_score :: real where
  "min_legal_score = 20 / 100"

definition keywords_found :: "ustr list \<Rightarrow> ustr \<Rightarrow> nat" where
  "keywords_found keywords txt = length (filter (\<lambda>keyword. contains keyword txt) keywords)"

definition category_weight :: "ustr \<Rightarrow> real" where
  "category_weight category = (case map_of weights category of Some w \<Rightarrow> w | None \<Rightarrow> 1 / 10)"

definition keyword_score :: "ustr \<Rightarrow> real" where
  "keyword_score txt =
     (\<Sum>(category, keywords) \<leftarrow> legal_keywords.
        (real (keywords_found keywords txt) / real (length keywords)) * category_weight category)"

definition pattern_score :: "ustr \<Rightarrow> real" where
  "pattern_score txt = (\<Sum>pattern \<leftarrow> legal_patterns. real (findall_count True pattern 0 txt) * (1 / 10))"

definition url_score :: "ustr \<Rightarrow> real" where
  "url_score u =
     (if u = [] then 0
      else (\<Sum>pattern \<leftarrow> legal_url_patterns. if contains pattern (lower u) then 1 / 10 else 0))"

definition calculate_legal_score :: "ustr \<Rightarrow> ustr \<Rightarrow> real" where
  "calculate_legal_score txt u =
     min (keyword_score txt + pattern_score txt * (1 / 10) + url_score u) 1"

definition calculate_non_legal_score :: "ustr \<Rightarrow> real" where
  "calculate_non_legal_score txt =
     min (\<Sum>pattern \<leftarrow> non_legal_patterns. real (findall_count True pattern 0 txt) * (1 / 10)) 1"

definition check_legal_structure :: "ustr \<Rightarrow> real" where
  "check_legal_structure txt =
     min ((if search False [Rep Digit 1 None, Atom (Chr 46), Atom Space] txt then 3 / 10 else 0)
        + (if search True
                [Alt [[1089, 1090, 1072, 1090, 1100, 1103], [1087, 1091, 1085, 1082, 1090],
                      [1095, 1072, 1089, 1090, 1100], [1075, 1083, 1072, 1074, 1072]],
                 Rep Space 0 None, Rep Digit 1 None] txt
           then 4 / 10 else 0)
        + (if search False
                [Rep Digit 1 (Some 2), Atom (Chr 46), Rep Digit 1 (Some 2), Atom (Chr 46),
                 Rep Digit 4 (Some 4)] txt
           then 2 / 10 else 0)
        + (if search False [Atom (Chr 8470), Rep Space 0 None, Rep Digit 1 None] txt
           then 1 / 10 else 0)) 1"

definition check_legal_terminology :: "ustr \<Rightarrow> real" where
  "check_legal_terminology txt =
     min (real (keywords_found legal_terms txt) / real (length legal_terms)) 1"

datatype part = Legal_terms real | Document_structure real | Legal_terminology real

datatype explanation =
    Too_short
  | Non_relevant_content
  | Found_parts "part list" real
  | Not_enough real

definition generate_explanation :: "real \<Rightarrow> real \<Rightarrow> real \<Rightarrow> real \<Rightarrow> explanation" where
  "generate_explanation legal_score structure_score terminology_score total_score =
     (let parts = (if legal_score > 3 / 10 then [Legal_terms legal_score] else [])
                @ (if structure_score > 3 / 10 then [Document_structure structure_score] else [])
                @ (if terminology_score > 3 / 10 then [Legal_terminology terminology_score] else [])
      in if parts \<noteq> [] then Found_parts parts total_score else Not_enough total_score)"

text \<open>The two bonuses of \<open>is_legal_content\<close>; the words are belarus, respublika belarus
  and pravo.by.\<close>

definition belarus_bonus :: "ustr \<Rightarrow> ustr \<Rightarrow> real" where
  "belarus_bonus full_text u =
     (if contains [1073, 1077, 1083, 1072, 1088, 1091, 1089, 1100] full_text
         \<or> contains [1088, 1077, 1089, 1087, 1091, 1073, 1083, 1080, 1082, 1072, 32,
                      1073, 1077, 1083, 1072, 1088, 1091, 1089, 1100] full_text
         \<or> contains [112, 114, 97, 118, 111, 46, 98, 121] (lower u)
      then 1 / 10 else 0)"

definition official_bonus :: "ustr \<Rightarrow> real" where
  "official_bonus full_text =
     (if list_ex (\<lambda>word. contains word full_text) official_words then 5 / 100 else 0)"

definition total_score :: "ustr \<Rightarrow> ustr \<Rightarrow> ustr \<Rightarrow> real" where
  "total_score txt ttl u =
     (let full_text = lower (ttl @ [32] @ txt) in
        calculate_legal_score full_text u * (6 / 10)
      + check_legal_structure txt * (25 / 100)
      + check_legal_terminology full_text * (15 / 100)
      + belarus_bonus full_text u
      + official_bonus full_text)"

definition is_legal_content :: "ustr \<Rightarrow> ustr \<Rightarrow> ustr \<Rightarrow> bool \<times> real \<times> explanation" where
  "is_legal_content txt ttl u =
     (if txt = [] \<or> length (strip txt) < 50 then (False, 0, Too_short)
      else let full_text = lower (ttl @ [32] @ txt);
               non_legal_score = calculate_non_legal_score full_text
           in if non_legal_score > 5 / 10 then (False, non_legal_score, Non_relevant_content)
              else let legal_score = calculate_legal_score full_text u;
                       structure_score = check_legal_structure txt;
                       terminology_score = check_legal_terminology full_text;
                       total = total_score txt ttl u
                   in (total \<ge> min_legal_score, total,
                       generate_explanation legal_score structure_score terminology_score total))"

section \<open>Incremental scraper\<close>

subsection \<open>Content fingerprint\<close>

text \<open>
  \<open>str.split()\<close> without arguments: the maximal runs of characters that are not
  whitespace, in order. The first argument of \<open>split_from\<close> is the word read so far,
  last character first.
\<close>

fun split_from :: "ustr \<Rightarrow> ustr \<Rightarrow> ustr list" where
  "split_from w [] = (if w = [] then [] else [rev w])"
| "split_from w (c # cs) =
     (if is_space c then (if w = [] then split_from [] cs else rev w # split_from [] cs)
      else split_from (c # w) cs)"

definition split :: "ustr \<Rightarrow> ustr list" where
  "split s = split_from [] s"

text \<open>\<open>' '.join(words)\<close>.\<close>

fun join_space :: "ustr list \<Rightarrow> ustr" where
  "join_space [] = []"
| "join_space [w] = w"
| "join_space (w # v # ws) = w @ 32 # join_space (v # ws)"

text \<open>
  \<open>str.encode('utf-8')\<close>: the bytes of each code point; a surrogate (U+D800 to U+DFFF)
  makes the call raise, which is the result \<open>None\<close>.
\<close>

definition utf8_cp :: "nat \<Rightarrow> nat list option" where
  "utf8_cp c =
     (if c < 128 then Some [c]
      else if c < 2048 then Some [192 + c div 64, 128 + c mod 64]
      else if 55296 \<le> c \<and> c \<le> 57343 then None
      else if c < 65536 then Some [224 + c div 4096, 128 + (c div 64) mod 64, 128 + c mod 64]
      else if c < 1114112 then
        Some [240 + c div 262144, 128 + (c div 4096) mod 64, 128 + (c div 64) mod 64, 128 + c mod 64]
      else None)"

fun encode_utf8 :: "ustr \<Rightarrow> nat list option" where
  "encode_utf8 [] = Some []"
| "encode_utf8 (c # cs) =
     (case utf8_cp c of
        None \<Rightarrow> None
      | Some bs \<Rightarrow> (case encode_utf8 cs of None \<Rightarrow> None | Some rest \<Rightarrow> Some (bs @ rest)))"

text \<open>
  What the scraper reaches outside itself: the network with the HTML parser, the
  knowledge base, \<open>urlparse\<close> and \<open>hashlib.md5\<close>. \<open>fetch_info\<close> is the request of
  \<open>_get_page_info\<close> up to \<open>_extract_main_content\<close>: the title, the main content and
  the last-modified mark of the page, or \<open>None\<close> when anything there raises.
  \<open>scrape_single_page\<close> is the method of \<open>WebScraper\<close>, which returns \<open>None\<close> on
  any error and for a content shorter than 100 characters. \<open>fetch_links\<close> is the request
  of the discovery loop: \<open>None\<close> when the request raises, \<open>Some None\<close> when the page was
  fetched and \<open>get_legal_links\<close> raises, and the links otherwise.
\<close>

type_synonym url = ustr
type_synonym time = int

record harvested_page =
  page_url :: url
  page_title :: ustr
  page_content :: ustr
  page_domain :: ustr

record env =
  fetch_info :: "url \<Rightarrow> (ustr \<times> ustr \<times> ustr option) option"
  scrape_single_page :: "url \<Rightarrow> harvested_page option"
  fetch_links :: "url \<Rightarrow> url list option option"
  add_to_knowledge_base :: "harvested_page list \<Rightarrow> nat"
  netloc :: "url \<Rightarrow> ustr"
  md5_hexdigest :: "nat list \<Rightarrow> ustr"

definition get_content_hash :: "env \<Rightarrow> ustr \<Rightarrow> ustr option" where
  "get_content_hash E content_text =
     (let normalized = strip (lower content_text);
          normalized = join_space (split normalized)
      in map_option (md5_hexdigest E) (encode_utf8 normalized))"

subsection \<open>The fingerprint store\<close>

text \<open>
  \<open>pages_info\<close>: the dictionary \<open>pages\<close> from URL to page record and the dictionary
  \<open>site_maps\<close> from domain to site map, both in insertion order. A key that a record
  lacks is \<open>None\<close>. Times are microseconds on the local clock; a stored time is the
  ISO string of such a clock reading.
\<close>

record page_record =
  content_hash :: "ustr option"
  title :: "ustr option"
  last_check :: "time option"
  last_scraped :: "time option"
  content_length :: "nat option"

record site_map =
  urls :: "url list"
  last_scan :: "time option"
  total_urls :: nat

record pages_info =
  pages :: "(url \<times> page_record) list"
  site_maps :: "(ustr \<times> site_map) list"

definition hours :: "int \<Rightarrow> int" where
  "hours h = h * 3600 * 1000000"

definition days :: "int \<Rightarrow> int" where
  "days d = d * 24 * 3600 * 1000000"

definition check_interval_hours :: int where
  "check_interval_hours = 24"

subsection \<open>Page information\<close>

record page_info =
  info_title :: ustr
  info_content_hash :: ustr
  info_last_modified :: "ustr option"
  info_content_length :: nat
  check_time :: time

definition get_page_info :: "env \<Rightarrow> time \<Rightarrow> url \<Rightarrow> page_info option" where
  "get_page_info E now u =
     (case fetch_info E u of
        None \<Rightarrow> None
      | Some (title_text, content_text, last_modified) \<Rightarrow>
          (case get_content_hash E content_text of
             None \<Rightarrow> None
           | Some h \<Rightarrow>
               Some \<lparr>info_title = title_text, info_content_hash = h,
                     info_last_modified = last_modified,
                     info_content_length = length content_text, check_time = now\<rparr>))"

subsection \<open>Discovery\<close>

text \<open>
  The \<open>while\<close> loop of \<open>_discover_site_urls\<close>. \<open>urls_found\<close> is a Python set; an
  address is added to it only when it was not checked before, so it is never added twice,
  and the list holds its elements in the order they were added.
\<close>

function discover_loop :: "env \<Rightarrow> int \<Rightarrow> url list \<Rightarrow> url list \<Rightarrow> url list \<Rightarrow> url list" where
  "discover_loop E max_pages urls_found [] checked_urls = urls_found"
| "discover_loop E max_pages urls_found (current_url # urls_to_check) checked_urls =
     (if \<not> int (length urls_found) < max_pages then urls_found
      else if current_url \<in> set checked_urls
        then discover_loop E max_pages urls_found urls_to_check checked_urls
      else (case fetch_links E current_url of
              None \<Rightarrow> discover_loop E max_pages urls_found urls_to_check (current_url # checked_urls)
            | Some new_links \<Rightarrow>
                discover_loop E max_pages (urls_found @ [current_url])
                  (urls_to_check @
                     filter (\<lambda>link. link \<notin> set (current_url # checked_urls)
                                     \<and> int (length (urls_found @ [current_url])) < max_pages)
                       (case new_links of None \<Rightarrow> [] | Some links \<Rightarrow> links))
                  (current_url # checked_urls)))"
  by pat_completeness auto
termination
  by (relation "measures [\<lambda>(E, max_pages, urls_found, urls_to_check, checked_urls).
                            nat (max_pages - int (length urls_found)),
                          \<lambda>(E, max_pages, urls_found, urls_to_check, checked_urls).
                            length urls_to_check]") auto

definition discover_site_urls ::
    "env \<Rightarrow> time \<Rightarrow> url \<Rightarrow> int \<Rightarrow> pages_info \<Rightarrow> url list \<times> pages_info" where
  "discover_site_urls E now start_url max_pages st =
     (let domain = netloc E start_url;
          cached = (case map_of (site_maps st) domain of
                      None \<Rightarrow> None
                    | Some sm \<Rightarrow>
                        (case last_scan sm of
                           None \<Rightarrow> None
                         | Some t \<Rightarrow> if now - t < days 7 then Some (urls sm) else None))
      in case cached of
           Some known \<Rightarrow> (known, st)
         | None \<Rightarrow>
             (let urls_list = discover_loop E max_pages [] [start_url] []
              in (urls_list,
                  st\<lparr>site_maps := AList.update domain
                        \<lparr>urls = urls_list, last_scan = Some now, total_urls = length urls_list\<rparr>
                        (site_maps st)\<rparr>)))"

subsection \<open>Change detection\<close>

definition recently_checked :: "time \<Rightarrow> page_record \<Rightarrow> bool" where
  "recently_checked now r =
     (case last_check r of None \<Rightarrow> False | Some t \<Rightarrow> now - t < hours check_interval_hours)"

text \<open>The \<open>update\<close> of a page record at the end of a check.\<close>

definition refreshed :: "page_record \<Rightarrow> page_info \<Rightarrow> page_record" where
  "refreshed r current_info =
     r\<lparr>last_check := Some (check_time current_info),
       content_hash := Some (info_content_hash current_info),
       title := Some (info_title current_info)\<rparr>"

text \<open>
  The first loop of \<open>check_for_changes\<close>: the pages dictionary after the loop and the
  lists \<open>new_pages\<close>, \<open>changed_pages\<close> and the part of \<open>deleted_pages\<close> the loop adds.
\<close>

fun check_urls ::
    "env \<Rightarrow> time \<Rightarrow> url list \<Rightarrow> (url \<times> page_record) list
      \<Rightarrow> (url \<times> page_record) list \<times> url list \<times> url list \<times> url list" where
  "check_urls E now [] pgs = (pgs, [], [], [])"
| "check_urls E now (u # rest) pgs =
     (case map_of pgs u of
        None \<Rightarrow>
          (case check_urls E now rest pgs of
             (pgs', new_pages, changed_pages, deleted_pages) \<Rightarrow>
               (pgs', u # new_pages, changed_pages, deleted_pages))
      | Some r \<Rightarrow>
          if recently_checked now r then check_urls E now rest pgs
          else (case get_page_info E now u of
                  None \<Rightarrow>
                    (case check_urls E now rest pgs of
                       (pgs', new_pages, changed_pages, deleted_pages) \<Rightarrow>
                         (pgs', new_pages, changed_pages, u # deleted_pages))
                | Some current_info \<Rightarrow>
                    (case check_urls E now rest
                            (AList.update u (refreshed r current_info) pgs) of
                       (pgs', new_pages, changed_pages, deleted_pages) \<Rightarrow>
                         (pgs', new_pages,
                          (if content_hash r \<noteq> Some (info_content_hash current_info)
                           then u # changed_pages else changed_pages),
                          deleted_pages))))"

definition check_for_changes ::
    "env \<Rightarrow> time \<Rightarrow> url list \<Rightarrow> pages_info \<Rightarrow> pages_info \<times> url list \<times> url list \<times> url list" where
  "check_for_changes E now url_list st =
     (case check_urls E now url_list (pages st) of
        (pgs', new_pages, changed_pages, deleted_pages) \<Rightarrow>
          (st\<lparr>pages := pgs'\<rparr>, new_pages, changed_pages,
           deleted_pages @ filter (\<lambda>u. u \<notin> set url_list) (map fst pgs')))"

subsection \<open>Incremental scrape\<close>

record scrape_report =
  total_urls_checked :: nat
  new_pages_count :: nat
  changed_pages_count :: nat
  deleted_pages_count :: nat
  pages_scraped :: nat
  chunks_added :: nat
  scraped_urls :: "url list option"

text \<open>
  The scraping loop of \<open>incremental_scrape\<close>. Hashing the content of a scraped page is
  not guarded there, so when it raises the whole call raises: the result \<open>None\<close>.
\<close>

fun scrape_pages ::
    "env \<Rightarrow> time \<Rightarrow> url list \<Rightarrow> (url \<times> page_record) list
      \<Rightarrow> (harvested_page list \<times> (url \<times> page_record) list) option" where
  "scrape_pages E now [] pgs = Some ([], pgs)"
| "scrape_pages E now (u # rest) pgs =
     (case scrape_single_page E u of
        None \<Rightarrow> scrape_pages E now rest pgs
      | Some page_data \<Rightarrow>
          (case get_content_hash E (page_content page_data) of
             None \<Rightarrow> None
           | Some h \<Rightarrow>
               (case scrape_pages E now rest
                       (AList.update u
                          \<lparr>content_hash = Some h, title = Some (page_title page_data),
                            last_check = Some now, last_scraped = Some now,
                            content_length = Some (length (page_content page_data))\<rparr> pgs) of
                  None \<Rightarrow> None
                | Some (scraped_data, pgs') \<Rightarrow> Some (page_data # scraped_data, pgs'))))"

definition incremental_scrape ::
    "env \<Rightarrow> time \<Rightarrow> url \<Rightarrow> int \<Rightarrow> pages_info \<Rightarrow> (scrape_report \<times> pages_info) option" where
  "incremental_scrape E now start_url max_pages st =
     (case discover_site_urls E now start_url max_pages st of
        (all_urls, st1) \<Rightarrow>
     (case check_for_changes E now all_urls st1 of
        (st2, new_pages, changed_pages, deleted_pages) \<Rightarrow>
          if new_pages @ changed_pages = [] then
            Some (\<lparr>total_urls_checked = length all_urls, new_pages_count = 0,
                   changed_pages_count = 0, deleted_pages_count = length deleted_pages,
                   pages_scraped = 0, chunks_added = 0, scraped_urls = None\<rparr>, st2)
          else
            (case scrape_pages E now (new_pages @ changed_pages) (pages st2) of
               None \<Rightarrow> None
             | Some (scraped_data, pgs3) \<Rightarrow>
                 Some (\<lparr>total_urls_checked = length all_urls,
                        new_pages_count = length new_pages,
                        changed_pages_count = length changed_pages,
                        deleted_pages_count = length deleted_pages,
                        pages_scraped = length scraped_data,
                        chunks_added = (if scraped_data = [] then 0
                                        else add_to_knowledge_base E scraped_data),
                        scraped_urls = Some (map page_url scraped_data)\<rparr>,
                       st2\<lparr>pages := fold AList.delete deleted_pages pgs3\<rparr>))))"

section \<open>Dynamic search\<close>

text \<open>
  What \<open>search_and_add_to_knowledge_base\<close> calls: the methods of the searcher, the
  scraper, the tracker, the knowledge base and the language-model service. They work on
  the network, the store and the files, which together are a world \<open>'w\<close>; every call
  returns the next world and either a value or \<open>None\<close> when it raises. The scraper
  returns \<open>Some None\<close> for a page it could not scrape. \<open>knowledge_base\<close> is the content
  of the store that \<open>search_relevant_docs\<close> reads.
\<close>

record 'w searcher =
  generate_search_queries :: "ustr \<Rightarrow> ustr list option"
  search_pravo_by :: "ustr \<Rightarrow> 'w \<Rightarrow> url list option \<times> 'w"
  searcher_scrape_single_page :: "url \<Rightarrow> 'w \<Rightarrow> harvested_page option option \<times> 'w"
  searcher_add_to_knowledge_base :: "harvested_page list \<Rightarrow> 'w \<Rightarrow> int option \<times> 'w"
  update_scraping_info :: "url \<Rightarrow> nat \<Rightarrow> int \<Rightarrow> 'w \<Rightarrow> unit option \<times> 'w"
  knowledge_base :: "'w \<Rightarrow> store"
  get_answer :: "ustr \<Rightarrow> doc list \<Rightarrow> 'w \<Rightarrow> ustr option \<times> 'w"

definition max_search_results :: nat where
  "max_search_results = 5"

text \<open>
  \<open>filter_scraped_content\<close> keeps the pages with a content that the relevance gate
  admits. The score, the explanation and the time that the source then writes into the
  page are not kept.
\<close>

definition filter_scraped_content :: "harvested_page list \<Rightarrow> harvested_page list" where
  "filter_scraped_content scraped_data =
     filter (\<lambda>page_data. page_content page_data \<noteq> [] \<and>
               fst (is_legal_content (page_content page_data) (page_title page_data)
                      (page_url page_data)))
       scraped_data"

text \<open>The loop over the search queries; an exception of a search ends the call.\<close>

fun search_all :: "'w searcher \<Rightarrow> ustr list \<Rightarrow> 'w \<Rightarrow> url list option \<times> 'w" where
  "search_all S [] w = (Some [], w)"
| "search_all S (query # queries) w =
     (case search_pravo_by S query w of
        (None, w') \<Rightarrow> (None, w')
      | (Some found_urls, w') \<Rightarrow>
          (case search_all S queries w' of
             (None, w'') \<Rightarrow> (None, w'')
           | (Some rest_urls, w'') \<Rightarrow> (Some (found_urls @ rest_urls), w'')))"

text \<open>
  The loop over the found addresses: a page is kept when it was scraped and its content
  has more than 200 characters; an exception is caught inside the loop, which goes on
  with the next address.
\<close>

fun scrape_all :: "'w searcher \<Rightarrow> url list \<Rightarrow> 'w \<Rightarrow> harvested_page list \<times> 'w" where
  "scrape_all S [] w = ([], w)"
| "scrape_all S (u # us) w =
     (case searcher_scrape_single_page S u w of
        (result, w') \<Rightarrow>
          (case scrape_all S us w' of
             (scraped_data, w'') \<Rightarrow>
               ((case result of
                   Some (Some page_data) \<Rightarrow>
                     if length (page_content page_data) > 200 then page_data # scraped_data
                     else scraped_data
                 | _ \<Rightarrow> scraped_data), w'')))"

text \<open>
  The note on the source of the answer, with the number of scraped pages in decimal
  digits; its words are: information found and added from \<open>n\<close> pages of pravo.by.
\<close>

fun decimal :: "nat \<Rightarrow> ustr" where
  "decimal n = (if n < 10 then [48 + n] else decimal (n div 10) @ [48 + n mod 10])"

definition source_info :: "nat \<Rightarrow> ustr" where
  "source_info n =
     [10, 10, 128205, 32, 1048, 1085, 1092, 1086, 1088, 1084, 1072, 1094, 1080, 1103, 32, 1085,
      1072, 1081, 1076, 1077, 1085, 1072, 32, 1080, 32, 1076, 1086, 1073, 1072, 1074, 1083, 1077,
      1085, 1072, 32, 1080, 1079, 32]
     @ decimal n
     @ [32, 1089, 1090, 1088, 1072, 1085, 1080, 1094, 32, 112, 114, 97, 118, 111, 46, 98, 121]"

text \<open>
  The body of \<open>search_and_add_to_knowledge_base\<close> is one \<open>try\<close> block whose handler
  returns \<open>(None, False)\<close>. \<open>list(set(all_found_urls))\<close> is the list without its
  duplicates, here in the order of first occurrence (Python leaves the order open).
\<close>

definition search_and_add_to_knowledge_base ::
    "'w searcher \<Rightarrow> ustr \<Rightarrow> 'w \<Rightarrow> ustr option \<times> bool" where
  "search_and_add_to_knowledge_base S user_question w =
     (case generate_search_queries S user_question of
        None \<Rightarrow> (None, False)
      | Some search_queries \<Rightarrow>
     (case search_all S search_queries w of
        (None, w1) \<Rightarrow> (None, False)
      | (Some all_found_urls, w1) \<Rightarrow>
          if remdups all_found_urls = [] then (None, False)
          else
     (case scrape_all S (take max_search_results (remdups all_found_urls)) w1 of
        (scraped_data, w2) \<Rightarrow>
          if scraped_data = [] then (None, False)
          else if filter_scraped_content scraped_data = [] then (None, False)
          else
     (case searcher_add_to_knowledge_base S (filter_scraped_content scraped_data) w2 of
        (None, w3) \<Rightarrow> (None, False)
      | (Some added, w3) \<Rightarrow>
          if added > 0 then
            (case update_scraping_info S [104, 116, 116, 112, 115, 58, 47, 47, 112, 114, 97, 118,
                                           111, 46, 98, 121, 47]
                    (length scraped_data) added w3 of
               (None, w4) \<Rightarrow> (None, False)
             | (Some finished, w4) \<Rightarrow>
                 if search_relevant_docs (knowledge_base S w4) user_question 5 \<noteq> [] then
                   (case get_answer S user_question
                           (search_relevant_docs (knowledge_base S w4) user_question 5) w4 of
                      (None, w5) \<Rightarrow> (None, False)
                    | (Some answer, w5) \<Rightarrow>
                        (Some (answer @ source_info (length scraped_data)), True))
                 else (None, False))
          else (None, False)))))"

section \<open>Notions used to state the properties\<close>


text \<open>
  The record of \<open>u\<close> after the first loop of \<open>check_for_changes\<close> over \<open>us\<close>, from its
  record \<open>r\<close> before.
\<close>

definition checked_record :: "env \<Rightarrow> time \<Rightarrow> url list \<Rightarrow> url \<Rightarrow> page_record \<Rightarrow> page_record" where
  "checked_record E now us u r =
     (if u \<in> set us \<and> \<not> recently_checked now r
      then (case get_page_info E now u of None \<Rightarrow> r | Some i \<Rightarrow> refreshed r i)
      else r)"

text \<open>
  A pattern all of whose literal characters are lower case. On a lowercased text such
  a pattern matches the same with and without \<open>re.IGNORECASE\<close>.
\<close>

fun lc_atom :: "atom \<Rightarrow> bool" where
  "lc_atom (Chr p) = (lower_cp p = p)"
| "lc_atom (One_of ps) = list_all (\<lambda>p. lower_cp p = p) ps"
| "lc_atom Digit = True"
| "lc_atom Space = True"

fun lc_item :: "item \<Rightarrow> bool" where
  "lc_item (Atom a) = lc_atom a"
| "lc_item (Rep a lo hi) = lc_atom a"
| "lc_item (Alt ws) = list_all (list_all (\<lambda>p. lower_cp p = p)) ws"

section \<open>Example inputs\<close>

text \<open>
  A store holding one chunk (the word pravo), at distance 0.95 and at distance 0.7 from
  every query.
\<close>

definition far_store :: store where
  "far_store = \<lparr>store_count = Some 1,
     store_query = (\<lambda>q n. Some ([[1087, 1088, 1072, 1074, 1086]], [95 / 100], [None]))\<rparr>"

definition near_store :: store where
  "near_store = \<lparr>store_count = Some 1,
     store_query = (\<lambda>q n. Some ([[1087, 1088, 1072, 1074, 1086]], [7 / 10], [None]))\<rparr>"

text \<open>The queries bot, zakon, poryadok and poryadok bot.\<close>

definition query_bot :: ustr where
  "query_bot = [1073, 1086, 1090]"

definition query_zakon :: ustr where
  "query_zakon = [1079, 1072, 1082, 1086, 1085]"

definition query_poryadok :: ustr where
  "query_poryadok = [1087, 1086, 1088, 1103, 1076, 1086, 1082]"

definition query_poryadok_bot :: ustr where
  "query_poryadok_bot = [1087, 1086, 1088, 1103, 1076, 1086, 1082, 32, 1073, 1086, 1090]"

text \<open>
  A site of two pages, \<open>a\<close> and \<open>c\<close>, that link to each other; the text of both reads
  \<open>A b\<close> to the change check, and their scraped content is one hundred letters \<open>a\<close>.
  The digest is a stand-in for MD5 that returns the bytes it is given. The store knows
  \<open>a\<close>, never checked, and \<open>b\<close>, checked at time 0, both with the fingerprint \<open>o\<close>.
\<close>

definition url_a :: url where
  "url_a = [97]"

definition url_b :: url where
  "url_b = [98]"

definition url_c :: url where
  "url_c = [99]"

definition demo_env :: env where
  "demo_env = \<lparr>
     fetch_info = (\<lambda>u. if u = url_a \<or> u = url_c then Some ([116], [65, 32, 98], None) else None),
     scrape_single_page = (\<lambda>u. if u = url_a \<or> u = url_c
        then Some \<lparr>page_url = u, page_title = [116], page_content = replicate 100 97,
                     page_domain = [100]\<rparr>
        else None),
     fetch_links = (\<lambda>u. if u = url_a then Some (Some [url_c])
                        else if u = url_c then Some (Some [url_a]) else None),
     add_to_knowledge_base = length,
     netloc = (\<lambda>u. [100]),
     md5_hexdigest = (\<lambda>bs. bs)\<rparr>"

text \<open>The same site when every request of the change check fails.\<close>

definition offline_env :: env where
  "offline_env = demo_env\<lparr>fetch_info := (\<lambda>u. None)\<rparr>"

definition demo_store :: pages_info where
  "demo_store = \<lparr>pages =
       [(url_a, \<lparr>content_hash = Some [111], title = Some [116], last_check = None,
                 last_scraped = None, content_length = Some 3\<rparr>),
        (url_b, \<lparr>content_hash = Some [111], title = Some [116], last_check = Some 0,
                 last_scraped = None, content_length = Some 3\<rparr>)],
     site_maps = []\<rparr>"

text \<open>The store after a change check of \<open>a\<close> and \<open>c\<close> at time 0.\<close>

definition demo_store_checked :: pages_info where
  "demo_store_checked = \<lparr>pages =
       [(url_a, \<lparr>content_hash = Some [97, 32, 98], title = Some [116], last_check = Some 0,
                 last_scraped = None, content_length = Some 3\<rparr>),
        (url_b, \<lparr>content_hash = Some [111], title = Some [116], last_check = Some 0,
                 last_scraped = None, content_length = Some 3\<rparr>)],
     site_maps = []\<rparr>"

text \<open>
  Three inputs of the relevance gate. \<open>text_fee\<close> reads
  1. Statya 5 zakona ot 01.02.2020 No 7: tsena dogovora soglasno zakonu
  (a legal reference that names a price, tsena), \<open>text_recipes\<close> reads
  Retsepty: retsept borshcha, retsept supa, retsept kashi, retsept plova, retsept ukhi,
  and \<open>url_portal\<close> reads
  pravo.by/law/legal/government/pravo/zakon/sovet/komitet/ministerstvo
  with the last five words in Cyrillic letters.
\<close>

definition text_fee :: ustr where
  "text_fee = [49, 46, 32, 1057, 1090, 1072, 1090, 1100, 1103, 32, 53, 32, 1079, 1072, 1082,
     1086, 1085, 1072, 32, 1086, 1090, 32, 48, 49, 46, 48, 50, 46, 50, 48, 50, 48, 32, 8470, 32,
     55, 58, 32, 1094, 1077, 1085, 1072, 32, 1076, 1086, 1075, 1086, 1074, 1086, 1088, 1072, 32,
     1089, 1086, 1075, 1083, 1072, 1089, 1085, 1086, 32, 1079, 1072, 1082, 1086, 1085, 1091]"

definition text_recipes :: ustr where
  "text_recipes = [1056, 1077, 1094, 1077, 1087, 1090, 1099, 58, 32, 1088, 1077, 1094, 1077,
     1087, 1090, 32, 1073, 1086, 1088, 1097, 1072, 44, 32, 1088, 1077, 1094, 1077, 1087, 1090,
     32, 1089, 1091, 1087, 1072, 44, 32, 1088, 1077, 1094, 1077, 1087, 1090, 32, 1082, 1072,
     1096, 1080, 44, 32, 1088, 1077, 1094, 1077, 1087, 1090, 32, 1087, 1083, 1086, 1074, 1072,
     44, 32, 1088, 1077, 1094, 1077, 1087, 1090, 32, 1091, 1093, 1080]"

definition url_portal :: ustr where
  "url_portal = [112, 114, 97, 118, 111, 46, 98, 121, 47, 108, 97, 119, 47, 108, 101, 103, 97,
     108, 47, 103, 111, 118, 101, 114, 110, 109, 101, 110, 116, 47, 1087, 1088, 1072, 1074,
     1086, 47, 1079, 1072, 1082, 1086, 1085, 47, 1089, 1086, 1074, 1077, 1090, 47, 1082, 1086,
     1084, 1080, 1090, 1077, 1090, 47, 1084, 1080, 1085, 1080, 1089, 1090, 1077, 1088, 1089,
     1090, 1074, 1086]"

text \<open>The lowercased title-plus-text of the first two, with an empty title.\<close>

definition full_fee :: ustr where
  "full_fee = [32, 49, 46, 32, 1089, 1090, 1072, 1090, 1100, 1103, 32, 53, 32, 1079, 1072, 1082,
     1086, 1085, 1072, 32, 1086, 1090, 32, 48, 49, 46, 48, 50, 46, 50, 48, 50, 48, 32, 8470, 32,
     55, 58, 32, 1094, 1077, 1085, 1072, 32, 1076, 1086, 1075, 1086, 1074, 1086, 1088, 1072, 32,
     1089, 1086, 1075, 1083, 1072, 1089, 1085, 1086, 32, 1079, 1072, 1082, 1086, 1085, 1091]"

definition full_recipes :: ustr where
  "full_recipes = [32, 1088, 1077, 1094, 1077, 1087, 1090, 1099, 58, 32, 1088, 1077, 1094, 1077,
     1087, 1090, 32, 1073, 1086, 1088, 1097, 1072, 44, 32, 1088, 1077, 1094, 1077, 1087, 1090,
     32, 1089, 1091, 1087, 1072, 44, 32, 1088, 1077, 1094, 1077, 1087, 1090, 32, 1082, 1072,
     1096, 1080, 44, 32, 1088, 1077, 1094, 1077, 1087, 1090, 32, 1087, 1083, 1086, 1074, 1072,
     44, 32, 1088, 1077, 1094, 1077, 1087, 1090, 32, 1091, 1093, 1080]"

text \<open>
  A run of the dynamic search that succeeds: every search finds the page
  https://pravo.by/law, whose content is 201 letters \<open>a\<close>; the knowledge base is empty
  before the page is added and holds one near chunk after; the answer is ok.
\<close>

definition page_law :: harvested_page where
  "page_law = \<lparr>page_url = [104, 116, 116, 112, 115, 58, 47, 47, 112, 114, 97, 118, 111, 46, 98,
                             121, 47, 108, 97, 119],
                page_title = [76, 97, 119], page_content = replicate 201 97,
                page_domain = [112, 114, 97, 118, 111, 46, 98, 121]\<rparr>"

definition demo_searcher :: "nat searcher" where
  "demo_searcher = \<lparr>
     generate_search_queries = (\<lambda>q. Some [q]),
     search_pravo_by = (\<lambda>q w. (Some [page_url page_law], w)),
     searcher_scrape_single_page = (\<lambda>u w. (Some (Some page_law), w)),
     searcher_add_to_knowledge_base = (\<lambda>ps w. (Some (int (length ps)), w + length ps)),
     update_scraping_info = (\<lambda>site n added w. (Some (), w)),
     knowledge_base = (\<lambda>w. if w = 0 then far_store else near_store),
     get_answer = (\<lambda>q docs w. (Some [111, 107], w))\<rparr>"

section \<open>Properties of retrieval\<close>

lemma relevant_loop_below: "\<forall>d \<in> set (relevant_loop ms i ps). distance d < 9 / 10"
  by (induction ms i ps rule: relevant_loop.induct) auto

lemma relevant_loop_pairs:
  "map (\<lambda>d. (content d, distance d)) (relevant_loop ms i ps) = filter (\<lambda>p. snd p < 9 / 10) ps"
  by (induction ms i ps rule: relevant_loop.induct) auto

lemma search_relevant_docs_cases:
  "search_relevant_docs st q n = [] \<or> (\<exists>ms ps. search_relevant_docs st q n = relevant_loop ms 0 ps)"
  by (auto simp: search_relevant_docs_def split: option.splits)

lemma search_relevant_docs_below: "\<forall>d \<in> set (search_relevant_docs st q n). distance d < 9 / 10"
  using search_relevant_docs_cases [of st q n] relevant_loop_below by fastforce

lemma best_distance_Min: "ds \<noteq> [] \<Longrightarrow> best_distance ds = Min (distance ` set ds)"
  by (induction ds rule: best_distance.induct) (auto simp: min_def)

lemmas text_eval = lower_def lower_cp_def strip_def is_space_def

lemmas retrieval_eval = search_relevant_docs_def should_use_dynamic_search_def metadata_at_def
  is_procedural_def is_bot_related_def has_procedural_content_def
  procedural_keywords_def bot_keywords_def procedural_content_keywords_def

text \<open>
  Claim C9. Every document returned by \<open>search_relevant_docs\<close> has a distance strictly
  below 0.9. When the store answers the query, the returned documents are, in the same
  order, the pairs of the store's answer whose distance is below 0.9, so they form a
  subsequence of the store's answer; and when every distance of the answer is at least
  0.9 the returned list is empty although the store returned matches.
\<close>

theorem search_relevant_docs_threshold_order:
  "(\<forall>d \<in> set (search_relevant_docs st q n). distance d < 9 / 10) \<and>
   (strip q \<noteq> [] \<and> store_count st = Some c \<and> c \<noteq> 0 \<and>
    store_query st q (min n (int c)) = Some (documents, distances, metadatas) \<longrightarrow>
      map (\<lambda>d. (content d, distance d)) (search_relevant_docs st q n)
        = filter (\<lambda>p. snd p < 9 / 10) (zip documents distances) \<and>
      subseq (map (\<lambda>d. (content d, distance d)) (search_relevant_docs st q n))
        (zip documents distances) \<and>
      ((\<forall>x \<in> set distances. 9 / 10 \<le> x) \<longrightarrow> search_relevant_docs st q n = []))"
proof (intro conjI impI)
  show "\<forall>d \<in> set (search_relevant_docs st q n). distance d < 9 / 10"
    by (rule search_relevant_docs_below)
next
  assume a: "strip q \<noteq> [] \<and> store_count st = Some c \<and> c \<noteq> 0 \<and>
    store_query st q (min n (int c)) = Some (documents, distances, metadatas)"
  then have q: "q \<noteq> []" by (auto simp: strip_def)
  from a q have r: "search_relevant_docs st q n = relevant_loop metadatas 0 (zip documents distances)"
    by (simp add: search_relevant_docs_def)
  show m: "map (\<lambda>d. (content d, distance d)) (search_relevant_docs st q n)
        = filter (\<lambda>p. snd p < 9 / 10) (zip documents distances)"
    by (simp add: r relevant_loop_pairs)
  show "subseq (map (\<lambda>d. (content d, distance d)) (search_relevant_docs st q n))
        (zip documents distances)"
    by (simp add: m)
  show "search_relevant_docs st q n = []" if h: "\<forall>x \<in> set distances. 9 / 10 \<le> x"
  proof -
    have "filter (\<lambda>p. snd p < 9 / 10) (zip documents distances) = []"
      using h by (auto simp: filter_empty_conv dest!: set_zip_rightD)
    with m show ?thesis by simp
  qed
qed

theorem search_relevant_docs_threshold_order_witness:
  "strip query_zakon \<noteq> [] \<and> store_count far_store = Some 1 \<and>
   store_query far_store query_zakon (min 3 (int 1))
     = Some ([[1087, 1088, 1072, 1074, 1086]], [95 / 100], [None]) \<and>
   search_relevant_docs far_store query_zakon 3 = []"
  using search_relevant_docs_threshold_order [of far_store query_zakon 3 1
      "[[1087, 1088, 1072, 1074, 1086]]" "[95 / 100]" "[None]"]
  by (simp add: far_store_def query_zakon_def text_eval)

text \<open>
  Claim C1, as stated: for a query that is not procedural, dynamic search is requested
  exactly when no document was retrieved or the least distance exceeds 0.6. The query
  bot is not procedural, its only retrieved document lies at distance 0.7, and the gate
  answers from the knowledge base: a query about the bot itself never falls back.
\<close>

theorem quality_gate_bot_query_counterexample:
  "\<not> is_procedural query_bot \<and>
   search_relevant_docs near_store query_bot 3 \<noteq> [] \<and>
   Min (distance ` set (search_relevant_docs near_store query_bot 3)) > 6 / 10 \<and>
   \<not> fst (should_use_dynamic_search near_store query_bot 3)"
  by (simp add: retrieval_eval near_store_def query_bot_def text_eval)

text \<open>
  Claim C1, amended: for a query that is neither procedural nor about the bot, dynamic
  search is requested exactly when no document was retrieved or the least distance among
  the retrieved documents exceeds 0.6; when documents were retrieved and the least
  distance is at most 0.6 the gate returns \<open>False\<close> together with those documents.
\<close>

theorem quality_gate_general_query:
  assumes "\<not> is_procedural q" and "\<not> is_bot_related q"
  shows "(fst (should_use_dynamic_search st q n) \<longleftrightarrow>
            search_relevant_docs st q n = [] \<or>
            Min (distance ` set (search_relevant_docs st q n)) > 6 / 10) \<and>
         (search_relevant_docs st q n \<noteq> [] \<and>
          Min (distance ` set (search_relevant_docs st q n)) \<le> 6 / 10 \<longrightarrow>
            should_use_dynamic_search st q n = (False, search_relevant_docs st q n))"
proof (cases "search_relevant_docs st q n = []")
  case True
  then show ?thesis by (simp add: should_use_dynamic_search_def)
next
  case False
  then have "best_distance (search_relevant_docs st q n)
      = Min (distance ` set (search_relevant_docs st q n))"
    by (rule best_distance_Min)
  with False assms show ?thesis
    by (auto simp: should_use_dynamic_search_def Let_def)
qed

theorem quality_gate_general_query_witness:
  "\<not> is_procedural query_zakon \<and> \<not> is_bot_related query_zakon \<and>
   search_relevant_docs near_store query_zakon 3 \<noteq> [] \<and>
   Min (distance ` set (search_relevant_docs near_store query_zakon 3)) > 6 / 10 \<and>
   fst (should_use_dynamic_search near_store query_zakon 3)"
proof -
  have p: "\<not> is_procedural query_zakon"
    by (simp add: is_procedural_def procedural_keywords_def query_zakon_def text_eval)
  have b: "\<not> is_bot_related query_zakon"
    by (simp add: is_bot_related_def bot_keywords_def query_zakon_def text_eval)
  have r: "search_relevant_docs near_store query_zakon 3
      = [\<lparr>content = [1087, 1088, 1072, 1074, 1086], metadata = [], distance = 7 / 10\<rparr>]"
    by (simp add: search_relevant_docs_def metadata_at_def near_store_def query_zakon_def text_eval)
  show ?thesis
    using quality_gate_general_query [OF p b, of near_store 3] p b by (simp add: r)
qed

text \<open>
  Claim C3, as stated: for a procedural query, dynamic search is requested whenever the
  least distance exceeds 0.35. The query poryadok bot is procedural, its only retrieved
  document lies at distance 0.7, and the gate answers from the knowledge base, because
  the query also names the bot.
\<close>

theorem quality_gate_procedural_bot_counterexample:
  "is_procedural query_poryadok_bot \<and>
   search_relevant_docs near_store query_poryadok_bot 3 \<noteq> [] \<and>
   Min (distance ` set (search_relevant_docs near_store query_poryadok_bot 3)) > 35 / 100 \<and>
   \<not> fst (should_use_dynamic_search near_store query_poryadok_bot 3)"
  by (simp add: retrieval_eval near_store_def query_poryadok_bot_def text_eval)

text \<open>
  Claim C3, amended: for a procedural query that is not about the bot, dynamic search is
  requested exactly when no document was retrieved, or the first retrieved chunk (the
  best match of a store that answers in order of distance) has no procedural marker, or
  the least distance exceeds 0.35; so it is not requested when that chunk has a marker
  and the least distance is at most 0.35.
\<close>

theorem quality_gate_procedural_query:
  assumes "is_procedural q" and "\<not> is_bot_related q"
  shows "fst (should_use_dynamic_search st q n) \<longleftrightarrow>
            search_relevant_docs st q n = [] \<or>
            \<not> has_procedural_content (content (hd (search_relevant_docs st q n))) \<or>
            Min (distance ` set (search_relevant_docs st q n)) > 35 / 100"
proof (cases "search_relevant_docs st q n = []")
  case True
  then show ?thesis by (simp add: should_use_dynamic_search_def)
next
  case False
  then have "best_distance (search_relevant_docs st q n)
      = Min (distance ` set (search_relevant_docs st q n))"
    by (rule best_distance_Min)
  with False assms show ?thesis
    by (auto simp: should_use_dynamic_search_def Let_def)
qed

theorem quality_gate_procedural_query_witness:
  "is_procedural query_poryadok \<and> \<not> is_bot_related query_poryadok \<and>
   \<not> has_procedural_content (content (hd (search_relevant_docs near_store query_poryadok 3))) \<and>
   fst (should_use_dynamic_search near_store query_poryadok 3)"
proof -
  have p: "is_procedural query_poryadok"
    by (simp add: is_procedural_def procedural_keywords_def query_poryadok_def text_eval)
  have b: "\<not> is_bot_related query_poryadok"
    by (simp add: is_bot_related_def bot_keywords_def query_poryadok_def text_eval)
  have r: "search_relevant_docs near_store query_poryadok 3
      = [\<lparr>content = [1087, 1088, 1072, 1074, 1086], metadata = [], distance = 7 / 10\<rparr>]"
    by (simp add: search_relevant_docs_def metadata_at_def near_store_def query_poryadok_def text_eval)
  have c: "\<not> has_procedural_content [1087, 1088, 1072, 1074, 1086]"
    by (simp add: has_procedural_content_def procedural_content_keywords_def text_eval)
  show ?thesis
    using quality_gate_procedural_query [OF p b, of near_store 3] p b c by (simp add: r)
qed

section \<open>Properties of the fingerprint\<close>


lemma split_from_space:
  "is_space c \<Longrightarrow> split_from w (xs @ c # ys) = split_from w xs @ split_from [] ys"
  by (induction xs arbitrary: w) auto

lemma split_from_spaces_nil: "\<forall>c \<in> set sp. is_space c \<Longrightarrow> split_from [] sp = []"
  by (induction sp) auto

lemma split_from_trailing:
  assumes "\<forall>c \<in> set sp. is_space c"
  shows "split_from w (xs @ sp) = split_from w xs"
proof (cases sp)
  case Nil
  then show ?thesis by simp
next
  case (Cons c sp')
  with assms have "split_from w (xs @ c # sp') = split_from w xs @ split_from [] sp'"
    by (simp add: split_from_space)
  moreover have "split_from [] sp' = []"
    using assms Cons by (simp add: split_from_spaces_nil)
  ultimately show ?thesis using Cons by simp
qed

lemma split_dropWhile: "split (dropWhile is_space s) = split s"
  by (induction s) (auto simp: split_def)

lemma trailing_spaces:
  "\<exists>sp. (\<forall>c \<in> set sp. is_space c) \<and> s = rev (dropWhile is_space (rev s)) @ sp"
proof -
  have "rev s = takeWhile is_space (rev s) @ dropWhile is_space (rev s)"
    by simp
  then have "s = rev (dropWhile is_space (rev s)) @ rev (takeWhile is_space (rev s))"
    by (metis rev_append rev_rev_ident)
  moreover have "\<forall>c \<in> set (rev (takeWhile is_space (rev s))). is_space c"
    by (auto dest: set_takeWhileD)
  ultimately show ?thesis by blast
qed

lemma split_strip: "split (strip s) = split s"
proof -
  obtain sp where sp: "\<forall>c \<in> set sp. is_space c"
    and e: "dropWhile is_space s = rev (dropWhile is_space (rev (dropWhile is_space s))) @ sp"
    using trailing_spaces [of "dropWhile is_space s"] by blast
  have "split (strip s) = split (strip s @ sp)"
    using sp by (simp add: split_def split_from_trailing)
  also have "\<dots> = split (dropWhile is_space s)"
    using e by (simp add: strip_def)
  finally show ?thesis by (simp add: split_dropWhile)
qed


lemma get_content_hash_words:
  "get_content_hash E s
     = map_option (md5_hexdigest E) (encode_utf8 (join_space (split (lower s))))"
  by (simp add: get_content_hash_def Let_def split_strip)

text \<open>On ASCII text the encoding never fails, and the bytes are the code points.\<close>

lemma encode_utf8_ascii: "list_all (\<lambda>c. c < 128) s \<Longrightarrow> encode_utf8 s = Some s"
  by (induction s) (auto simp: utf8_cp_def)

lemma split_from_ascii:
  "list_all (\<lambda>c. c < 128) w \<Longrightarrow> list_all (\<lambda>c. c < 128) s \<Longrightarrow>
     list_all (list_all (\<lambda>c. c < 128)) (split_from w s)"
  by (induction s arbitrary: w) auto

lemma join_space_ascii:
  "list_all (list_all (\<lambda>c. c < 128)) ws \<Longrightarrow> list_all (\<lambda>c. c < (128::nat)) (join_space ws)"
  by (induction ws rule: join_space.induct) auto

lemma lower_ascii: "list_all (\<lambda>c. c < 128) s \<Longrightarrow> list_all (\<lambda>c. c < 128) (lower s)"
  by (induction s) (auto simp: lower_def lower_cp_def)

lemma get_content_hash_ascii:
  assumes "list_all (\<lambda>c. c < 128) s"
  shows "get_content_hash E s = Some (md5_hexdigest E (join_space (split (lower s))))"
proof -
  have "list_all (\<lambda>c. c < 128) (lower s)"
    using assms by (rule lower_ascii)
  then have "list_all (list_all (\<lambda>c. c < 128)) (split (lower s))"
    unfolding split_def by (intro split_from_ascii) simp_all
  then have "list_all (\<lambda>c. c < 128) (join_space (split (lower s)))"
    by (rule join_space_ascii)
  then show ?thesis
    by (simp add: get_content_hash_words encode_utf8_ascii)
qed

lemmas scraper_eval = check_for_changes_def get_page_info_def get_content_hash_def
  recently_checked_def refreshed_def hours_def check_interval_hours_def utf8_cp_def split_def

lemmas demo_eval = demo_env_def offline_env_def demo_store_def demo_store_checked_def
  url_a_def url_b_def url_c_def



section \<open>Properties of change detection\<close>

lemma get_page_info_time: "get_page_info E now u = Some i \<Longrightarrow> check_time i = now"
  by (auto simp: get_page_info_def split: option.splits prod.splits)

lemma get_page_info_hash:
  "get_page_info E now u = Some i \<Longrightarrow>
     \<exists>j. get_page_info E now2 u = Some j \<and> info_content_hash j = info_content_hash i"
  by (auto simp: get_page_info_def split: option.splits prod.splits)

lemma recently_refreshed:
  "get_page_info E now u = Some i \<Longrightarrow> recently_checked now (refreshed r i)"
  by (simp add: recently_checked_def refreshed_def get_page_info_time hours_def
      check_interval_hours_def)

lemma check_urls_spec:
  "check_urls E now us pgs = (pgs', nw, ch, dl) \<Longrightarrow>
     (u \<in> set nw \<longleftrightarrow> u \<in> set us \<and> map_of pgs u = None) \<and>
     (u \<in> set dl \<longleftrightarrow> u \<in> set us \<and>
        (\<exists>r. map_of pgs u = Some r \<and> \<not> recently_checked now r \<and> get_page_info E now u = None)) \<and>
     (u \<in> set ch \<longleftrightarrow> u \<in> set us \<and>
        (\<exists>r i. map_of pgs u = Some r \<and> \<not> recently_checked now r \<and>
               get_page_info E now u = Some i \<and>
               content_hash r \<noteq> Some (info_content_hash i))) \<and>
     map_of pgs' u = map_option (checked_record E now us u) (map_of pgs u) \<and>
     map fst pgs' = map fst pgs"
proof (induction us arbitrary: pgs pgs' nw ch dl)
  case Nil
  then show ?case
    by (auto simp: checked_record_def option.map_ident cong: option.map_cong)
next
  case (Cons a us)
  show ?case
  proof (cases "map_of pgs a")
    case None
    with Cons.prems obtain nw' where
      "check_urls E now us pgs = (pgs', nw', ch, dl)" "nw = a # nw'"
      by (auto split: prod.splits)
    with Cons.IH [of pgs pgs' nw' ch dl] None show ?thesis
      by (cases "map_of pgs u") (auto simp: checked_record_def)
  next
    case (Some r)
    show ?thesis
    proof (cases "recently_checked now r")
      case True
      with Some Cons.prems Cons.IH [of pgs pgs' nw ch dl] show ?thesis
        by (cases "map_of pgs u") (auto simp: checked_record_def)
    next
      case False
      show ?thesis
      proof (cases "get_page_info E now a")
        case None
        with Some False Cons.prems obtain dl' where
          "check_urls E now us pgs = (pgs', nw, ch, dl')" "dl = a # dl'"
          by (auto split: prod.splits)
        with Cons.IH [of pgs pgs' nw ch dl'] Some None False show ?thesis
          by (cases "map_of pgs u") (auto simp: checked_record_def)
      next
        case (Some i)
        note r = \<open>map_of pgs a = Some r\<close>
        from Some r False Cons.prems obtain ch' where
          c: "check_urls E now us (AList.update a (refreshed r i) pgs) = (pgs', nw, ch', dl)"
          and ch: "ch = (if content_hash r \<noteq> Some (info_content_hash i) then a # ch' else ch')"
          by (auto split: prod.splits)
        have k: "map fst (AList.update a (refreshed r i) pgs) = map fst pgs"
          using r by (auto simp: update_keys dest: map_of_SomeD intro: rev_image_eqI)
        have rr: "recently_checked now (refreshed r i)"
          using Some by (rule recently_refreshed)
        from Cons.IH [OF c] r Some False ch k rr show ?thesis
          by (cases "map_of pgs u") (auto simp: checked_record_def update_conv')
      qed
    qed
  qed
qed

lemma check_for_changes_spec:
  assumes "check_for_changes E now us st = (st', nw, ch, dl)"
  shows "(u \<in> set nw \<longleftrightarrow> u \<in> set us \<and> map_of (pages st) u = None) \<and>
     (u \<in> set ch \<longleftrightarrow> u \<in> set us \<and>
        (\<exists>r i. map_of (pages st) u = Some r \<and> \<not> recently_checked now r \<and>
               get_page_info E now u = Some i \<and>
               content_hash r \<noteq> Some (info_content_hash i))) \<and>
     (u \<in> set dl \<longleftrightarrow>
        (u \<in> fst ` set (pages st) \<and> u \<notin> set us) \<or>
        (u \<in> set us \<and>
          (\<exists>r. map_of (pages st) u = Some r \<and> \<not> recently_checked now r \<and>
               get_page_info E now u = None))) \<and>
     map_of (pages st') u = map_option (checked_record E now us u) (map_of (pages st) u) \<and>
     site_maps st' = site_maps st"
proof -
  obtain pgs' dl' where c: "check_urls E now us (pages st) = (pgs', nw, ch, dl')"
    and d: "dl = dl' @ filter (\<lambda>u. u \<notin> set us) (map fst pgs')"
    and s: "st' = st\<lparr>pages := pgs'\<rparr>"
    using assms by (auto simp: check_for_changes_def split: prod.splits)
  from check_urls_spec [OF c, of u] d s show ?thesis by auto
qed

text \<open>
  Claim C5, as stated: a URL that is contained in the list given to
  \<open>check_for_changes\<close> is never classified as deleted. When the request for a recorded
  page fails, the page is in the list and is returned as deleted.
\<close>

theorem check_for_changes_unreachable_counterexample:
  "url_a \<in> set [url_a] \<and>
   check_for_changes offline_env 0 [url_a] demo_store = (demo_store, [], [], [url_a, url_b])"
  by (simp add: scraper_eval demo_eval)

text \<open>
  Claim C5, amended: a URL is returned in the deleted list exactly when it has a record
  in the store and either is absent from the list, or is in the list, is due for a
  re-check and its request fails. A URL of the list is returned as new exactly when it
  has no record (it is not requested then), and as changed exactly when it has a record,
  is due for a re-check, its request succeeds and the fingerprint of the page differs
  from the stored one; it is left unclassified otherwise.
\<close>

theorem check_for_changes_classification:
  assumes "check_for_changes E now us st = (st', nw, ch, dl)"
  shows "(u \<in> set dl \<longleftrightarrow>
            (u \<in> fst ` set (pages st) \<and> u \<notin> set us) \<or>
            (u \<in> set us \<and> (\<exists>r. map_of (pages st) u = Some r \<and> \<not> recently_checked now r
                                  \<and> get_page_info E now u = None))) \<and>
         (u \<in> set nw \<longleftrightarrow> u \<in> set us \<and> map_of (pages st) u = None) \<and>
         (u \<in> set ch \<longleftrightarrow> u \<in> set us \<and>
            (\<exists>r i. map_of (pages st) u = Some r \<and> \<not> recently_checked now r
                   \<and> get_page_info E now u = Some i
                   \<and> content_hash r \<noteq> Some (info_content_hash i)))"
  using check_for_changes_spec [OF assms, of u] by blast

theorem check_for_changes_classification_witness:
  "check_for_changes demo_env 0 [url_a, url_c] demo_store
     = (demo_store_checked, [url_c], [url_a], [url_b]) \<and>
   ((url_a \<in> set [url_b] \<longleftrightarrow>
            (url_a \<in> fst ` set (pages demo_store) \<and> url_a \<notin> set [url_a, url_c]) \<or>
            (url_a \<in> set [url_a, url_c] \<and>
               (\<exists>r. map_of (pages demo_store) url_a = Some r \<and> \<not> recently_checked 0 r
                    \<and> get_page_info demo_env 0 url_a = None))) \<and>
    (url_a \<in> set [url_c] \<longleftrightarrow> url_a \<in> set [url_a, url_c] \<and> map_of (pages demo_store) url_a = None) \<and>
    (url_a \<in> set [url_a] \<longleftrightarrow> url_a \<in> set [url_a, url_c] \<and>
            (\<exists>r i. map_of (pages demo_store) url_a = Some r \<and> \<not> recently_checked 0 r
                   \<and> get_page_info demo_env 0 url_a = Some i
                   \<and> content_hash r \<noteq> Some (info_content_hash i))))"
proof -
  have h: "check_for_changes demo_env 0 [url_a, url_c] demo_store
      = (demo_store_checked, [url_c], [url_a], [url_b])"
    by (simp add: scraper_eval demo_eval text_eval)
  from conjI [OF h check_for_changes_classification [OF h, of url_a]]
  show ?thesis .
qed

text \<open>
  Claim C10. \<open>check_for_changes\<close> overwrites the stored fingerprint at check time: when
  a URL of the list has a record, is due for a re-check and its request succeeds, the
  stored \<open>content_hash\<close> after the call is the fingerprint of the live content, whether or
  not the URL was classified as changed; and a repeated check against the same site, at
  any time, puts the URL in none of the three lists.
\<close>

theorem check_for_changes_overwrites_hash:
  assumes u: "u \<in> set us" and r: "map_of (pages st) u = Some r"
    and due: "\<not> recently_checked now r" and i: "get_page_info E now u = Some i"
    and c1: "check_for_changes E now us st = (st', nw, ch, dl)"
    and c2: "check_for_changes E now2 us st' = (st'', nw2, ch2, dl2)"
  shows "(\<exists>r'. map_of (pages st') u = Some r' \<and> content_hash r' = Some (info_content_hash i)) \<and>
         u \<notin> set nw2 \<and> u \<notin> set ch2 \<and> u \<notin> set dl2"
proof -
  have m: "map_of (pages st') u = Some (refreshed r i)"
    using check_for_changes_spec [OF c1, of u] u r due i by (simp add: checked_record_def)
  obtain j where j: "get_page_info E now2 u = Some j" "info_content_hash j = info_content_hash i"
    using get_page_info_hash [OF i] by blast
  have h: "content_hash (refreshed r i) = Some (info_content_hash i)"
    by (simp add: refreshed_def)
  from check_for_changes_spec [OF c2, of u] m j h u show ?thesis by auto
qed

theorem check_for_changes_overwrites_hash_witness:
  "url_a \<in> set [url_a, url_c] \<and>
   map_of (pages demo_store) url_a
     = Some \<lparr>content_hash = Some [111], title = Some [116], last_check = None,
             last_scraped = None, content_length = Some 3\<rparr> \<and>
   \<not> recently_checked 0 \<lparr>content_hash = Some [111], title = Some [116], last_check = None,
             last_scraped = None, content_length = Some 3\<rparr> \<and>
   get_page_info demo_env 0 url_a
     = Some \<lparr>info_title = [116], info_content_hash = [97, 32, 98], info_last_modified = None,
             info_content_length = 3, check_time = 0\<rparr> \<and>
   check_for_changes demo_env 0 [url_a, url_c] demo_store
     = (demo_store_checked, [url_c], [url_a], [url_b]) \<and>
   check_for_changes demo_env 0 [url_a, url_c] demo_store_checked
     = (demo_store_checked, [url_c], [], [url_b]) \<and>
   (\<exists>r'. map_of (pages demo_store_checked) url_a = Some r' \<and> content_hash r' = Some [97, 32, 98]) \<and>
   url_a \<notin> set [url_c] \<and> url_a \<notin> set [] \<and> url_a \<notin> set [url_b]"
proof -
  have u: "url_a \<in> set [url_a, url_c]"
    by simp
  have r: "map_of (pages demo_store) url_a
      = Some \<lparr>content_hash = Some [111], title = Some [116], last_check = None,
              last_scraped = None, content_length = Some 3\<rparr>"
    by (simp add: demo_eval)
  have due: "\<not> recently_checked 0 \<lparr>content_hash = Some [111], title = Some [116],
      last_check = None, last_scraped = None, content_length = Some 3\<rparr>"
    by (simp add: recently_checked_def)
  have i: "get_page_info demo_env 0 url_a
      = Some \<lparr>info_title = [116], info_content_hash = [97, 32, 98], info_last_modified = None,
              info_content_length = 3, check_time = 0\<rparr>"
    by (simp add: scraper_eval demo_eval text_eval)
  have c1: "check_for_changes demo_env 0 [url_a, url_c] demo_store
      = (demo_store_checked, [url_c], [url_a], [url_b])"
    by (simp add: scraper_eval demo_eval text_eval)
  have c2: "check_for_changes demo_env 0 [url_a, url_c] demo_store_checked
      = (demo_store_checked, [url_c], [], [url_b])"
    by (simp add: scraper_eval demo_eval text_eval)
  from check_for_changes_overwrites_hash [OF u r due i c1 c2] u r due i c1 c2
  show ?thesis by simp
qed

section \<open>Properties of the incremental scrape\<close>

lemma discover_cached:
  assumes "map_of (site_maps st) (netloc E start_url) = Some sm" "last_scan sm = Some t"
    "now - t < days 7"
  shows "discover_site_urls E now start_url max_pages st = (urls sm, st)"
  using assms by (simp add: discover_site_urls_def)

lemma discover_result:
  assumes "discover_site_urls E now start_url max_pages st = (us, st1)"
  shows "pages st1 = pages st \<and>
         (\<exists>sm t. map_of (site_maps st1) (netloc E start_url) = Some sm \<and> urls sm = us \<and>
                 last_scan sm = Some t \<and> now - t < days 7 \<and>
                 (t = now \<or> (st1 = st \<and> map_of (site_maps st) (netloc E start_url) = Some sm)))"
  using assms
  by (auto simp: discover_site_urls_def Let_def days_def update_conv'
      split: option.splits if_splits)

lemma scrape_pages_spec:
  assumes "\<forall>u \<in> set us. \<exists>pd h. scrape_single_page E u = Some pd \<and>
      get_content_hash E (page_content pd) = Some h"
  shows "\<exists>scraped pgs'. scrape_pages E now us pgs = Some (scraped, pgs') \<and>
           (\<forall>u \<in> set us. \<exists>r. map_of pgs' u = Some r \<and> last_check r = Some now) \<and>
           (\<forall>u. u \<notin> set us \<longrightarrow> map_of pgs' u = map_of pgs u)"
  using assms
proof (induction us arbitrary: pgs)
  case Nil
  then show ?case by simp
next
  case (Cons a us)
  then obtain pd h where a: "scrape_single_page E a = Some pd"
    "get_content_hash E (page_content pd) = Some h"
    by auto
  define pgs1 where "pgs1 = AList.update a
       \<lparr>content_hash = Some h, title = Some (page_title pd), last_check = Some now,
         last_scraped = Some now, content_length = Some (length (page_content pd))\<rparr> pgs"
  from Cons.prems have "\<forall>u \<in> set us. \<exists>pd h. scrape_single_page E u = Some pd \<and>
      get_content_hash E (page_content pd) = Some h"
    by simp
  from Cons.IH [OF this, of pgs1] obtain scraped pgs' where
    s: "scrape_pages E now us pgs1 = Some (scraped, pgs')"
    and i: "\<forall>u \<in> set us. \<exists>r. map_of pgs' u = Some r \<and> last_check r = Some now"
    and o: "\<forall>u. u \<notin> set us \<longrightarrow> map_of pgs' u = map_of pgs1 u"
    by blast
  have "scrape_pages E now (a # us) pgs = Some (pd # scraped, pgs')"
    using a s by (simp add: pgs1_def)
  moreover have "\<forall>u \<in> set (a # us). \<exists>r. map_of pgs' u = Some r \<and> last_check r = Some now"
    using i o by (auto simp: pgs1_def update_conv')
  moreover have "\<forall>u. u \<notin> set (a # us) \<longrightarrow> map_of pgs' u = map_of pgs u"
    using o by (auto simp: pgs1_def update_conv')
  ultimately show ?case by auto
qed

lemma map_of_fold_delete:
  "map_of (fold AList.delete dl pgs) u = (if u \<in> set dl then None else map_of pgs u)"
  by (induction dl arbitrary: pgs) (auto simp: delete_conv')

lemma check_urls_all_recent:
  assumes "\<forall>u \<in> set us. \<exists>r. map_of pgs u = Some r \<and> recently_checked now r"
  shows "check_urls E now us pgs = (pgs, [], [], [])"
  using assms by (induction us) auto

lemma recent_now: "now2 - now1 < hours 24 \<Longrightarrow> last_check r = Some now1 \<Longrightarrow> recently_checked now2 r"
  by (simp add: recently_checked_def check_interval_hours_def)

lemma first_run:
  assumes d1: "discover_site_urls E now1 start_url max_pages st = (us, sa)"
    and fetch: "\<forall>u \<in> set us. get_page_info E now1 u \<noteq> None \<and>
        (\<exists>pd h. scrape_single_page E u = Some pd \<and> get_content_hash E (page_content pd) = Some h)"
    and soon: "now2 - now1 < hours 24"
    and recs: "\<forall>r \<in> snd ` set (pages st). recently_checked now1 r \<longrightarrow> recently_checked now2 r"
  shows "\<exists>r1 sc. incremental_scrape E now1 start_url max_pages st = Some (r1, sc) \<and>
           site_maps sc = site_maps sa \<and>
           (\<forall>u \<in> set us. \<exists>r. map_of (pages sc) u = Some r \<and> recently_checked now2 r)"
proof -
  have pa: "pages sa = pages st" using discover_result [OF d1] by simp
  obtain sb nw ch dl where c1: "check_for_changes E now1 us sa = (sb, nw, ch, dl)"
    by (cases "check_for_changes E now1 us sa") auto
  note spec = check_for_changes_spec [OF c1]
  have sm: "site_maps sb = site_maps sa" using spec by simp
  have kept: "\<exists>r. map_of (pages sb) u = Some r \<and> recently_checked now2 r"
    if u: "u \<in> set us" and n: "u \<notin> set nw" for u
  proof -
    from spec [of u] u n obtain r where r: "map_of (pages sa) u = Some r" by auto
    then have "r \<in> snd ` set (pages st)" using pa by (auto dest!: map_of_SomeD intro: rev_image_eqI)
    with recs have keep: "recently_checked now1 r \<Longrightarrow> recently_checked now2 r" by blast
    from fetch u obtain i where i: "get_page_info E now1 u = Some i" by auto
    have "last_check (refreshed r i) = Some now1"
      using get_page_info_time [OF i] by (simp add: refreshed_def)
    then have "recently_checked now2 (refreshed r i)" using soon by (rule recent_now [rotated])
    with spec [of u] r i keep u show ?thesis by (auto simp: checked_record_def)
  qed
  have nodel: "u \<notin> set dl" if "u \<in> set us" for u
    using spec [of u] that fetch by auto
  show ?thesis
  proof (cases "nw @ ch = []")
    case True
    then have "\<exists>r1. incremental_scrape E now1 start_url max_pages st = Some (r1, sb)"
      using d1 c1 by (simp add: incremental_scrape_def)
    moreover have "\<forall>u \<in> set us. \<exists>r. map_of (pages sb) u = Some r \<and> recently_checked now2 r"
      using kept True by simp
    ultimately show ?thesis using sm by blast
  next
    case False
    have sub: "set (nw @ ch) \<subseteq> set us" using spec by auto
    with fetch have "\<forall>u \<in> set (nw @ ch). \<exists>pd h. scrape_single_page E u = Some pd \<and>
        get_content_hash E (page_content pd) = Some h" by blast
    from scrape_pages_spec [OF this, of now1 "pages sb"] obtain scraped pgs3 where
      s: "scrape_pages E now1 (nw @ ch) (pages sb) = Some (scraped, pgs3)"
      and i: "\<forall>u \<in> set (nw @ ch). \<exists>r. map_of pgs3 u = Some r \<and> last_check r = Some now1"
      and o: "\<forall>u. u \<notin> set (nw @ ch) \<longrightarrow> map_of pgs3 u = map_of (pages sb) u"
      by blast
    define sc where "sc = sb\<lparr>pages := fold AList.delete dl pgs3\<rparr>"
    have "\<exists>r1. incremental_scrape E now1 start_url max_pages st = Some (r1, sc)"
      using d1 c1 s False by (auto simp: incremental_scrape_def sc_def)
    moreover have "\<exists>r. map_of (pages sc) u = Some r \<and> recently_checked now2 r" if u: "u \<in> set us" for u
    proof (cases "u \<in> set (nw @ ch)")
      case True
      with i obtain r where "map_of pgs3 u = Some r" "last_check r = Some now1" by blast
      then show ?thesis using nodel [OF u] recent_now [OF soon]
        by (simp add: sc_def map_of_fold_delete)
    next
      case False
      then have "map_of pgs3 u = map_of (pages sb) u" using o by blast
      moreover from False have "u \<notin> set nw" by simp
      ultimately show ?thesis using kept [OF u] nodel [OF u]
        by (simp add: sc_def map_of_fold_delete)
    qed
    moreover have "site_maps sc = site_maps sa" using sm by (simp add: sc_def)
    ultimately show ?thesis by blast
  qed
qed

text \<open>
  Claim C6. Over a site that is the same in both runs and on which every request for a
  discovered page succeeds (the change check gets the page information, and the scraper
  returns a page whose content can be hashed), a second run of \<open>incremental_scrape\<close>
  right after the first, before any re-check interval or the site-map cache of the first
  run has expired, returns, and reports zero new pages and zero changed pages.
\<close>

theorem incremental_scrape_second_run:
  assumes fetch: "\<forall>u \<in> set (fst (discover_site_urls E now1 start_url max_pages st)).
        get_page_info E now1 u \<noteq> None \<and>
        (\<exists>pd h. scrape_single_page E u = Some pd \<and> get_content_hash E (page_content pd) = Some h)"
    and soon: "now2 - now1 < hours 24"
    and recs: "\<forall>r \<in> snd ` set (pages st). recently_checked now1 r \<longrightarrow> recently_checked now2 r"
    and smap: "\<forall>sm t. map_of (site_maps st) (netloc E start_url) = Some sm \<longrightarrow> last_scan sm = Some t \<longrightarrow>
        now1 - t < days 7 \<longrightarrow> now2 - t < days 7"
  shows "\<exists>r1 st1 r2 st2.
           incremental_scrape E now1 start_url max_pages st = Some (r1, st1) \<and>
           incremental_scrape E now2 start_url max_pages st1 = Some (r2, st2) \<and>
           new_pages_count r2 = 0 \<and> changed_pages_count r2 = 0"
proof -
  obtain us sa where d1: "discover_site_urls E now1 start_url max_pages st = (us, sa)"
    by (cases "discover_site_urls E now1 start_url max_pages st") auto
  from fetch d1 have f: "\<forall>u \<in> set us. get_page_info E now1 u \<noteq> None \<and>
        (\<exists>pd h. scrape_single_page E u = Some pd \<and> get_content_hash E (page_content pd) = Some h)"
    by simp
  from first_run [OF d1 f soon recs] obtain r1 sc where
    run1: "incremental_scrape E now1 start_url max_pages st = Some (r1, sc)"
    and sm: "site_maps sc = site_maps sa"
    and fresh: "\<forall>u \<in> set us. \<exists>r. map_of (pages sc) u = Some r \<and> recently_checked now2 r"
    by blast
  from discover_result [OF d1] obtain m t where
    m: "map_of (site_maps sa) (netloc E start_url) = Some m" "urls m = us" "last_scan m = Some t"
      "now1 - t < days 7" "t = now1 \<or> (sa = st \<and> map_of (site_maps st) (netloc E start_url) = Some m)"
    by blast
  have "now2 - t < days 7"
  proof (cases "t = now1")
    case True
    with soon show ?thesis by (simp add: hours_def days_def)
  next
    case False
    with m smap show ?thesis by blast
  qed
  with m sm have d2: "discover_site_urls E now2 start_url max_pages sc = (us, sc)"
    using discover_cached [of sc E start_url m t now2 max_pages] by simp
  have c2: "check_for_changes E now2 us sc = (sc, [], [], filter (\<lambda>u. u \<notin> set us) (map fst (pages sc)))"
    using check_urls_all_recent [OF fresh, of E] by (simp add: check_for_changes_def)
  have "\<exists>r2. incremental_scrape E now2 start_url max_pages sc = Some (r2, sc) \<and>
          new_pages_count r2 = 0 \<and> changed_pages_count r2 = 0"
    using d2 c2 by (simp add: incremental_scrape_def)
  with run1 show ?thesis by blast
qed

theorem incremental_scrape_second_run_witness:
  "\<exists>r1 st1 r2 st2.
     incremental_scrape demo_env 0 url_a 100 demo_store = Some (r1, st1) \<and>
     incremental_scrape demo_env 1000000 url_a 100 st1 = Some (r2, st2) \<and>
     new_pages_count r2 = 0 \<and> changed_pages_count r2 = 0"
proof (rule incremental_scrape_second_run)
  have d: "fst (discover_site_urls demo_env 0 url_a 100 demo_store) = [url_a, url_c]"
    by (simp add: discover_site_urls_def Let_def demo_eval)
  have a: "list_all (\<lambda>c. c < 128) (replicate 100 (97::nat))"
    by (simp add: list_all_iff)
  have i: "get_page_info demo_env 0 u \<noteq> None" if "u = url_a \<or> u = url_c" for u
    using that by (auto simp: scraper_eval demo_eval text_eval)
  have s: "\<exists>pd h. scrape_single_page demo_env u = Some pd \<and>
      get_content_hash demo_env (page_content pd) = Some h" if "u = url_a \<or> u = url_c" for u
    using that get_content_hash_ascii [OF a, of demo_env] by (auto simp: demo_env_def)
  show "\<forall>u \<in> set (fst (discover_site_urls demo_env 0 url_a 100 demo_store)).
      get_page_info demo_env 0 u \<noteq> None \<and>
      (\<exists>pd h. scrape_single_page demo_env u = Some pd \<and>
              get_content_hash demo_env (page_content pd) = Some h)"
    using i s by (simp add: d)
  show "1000000 - 0 < hours 24"
    by (simp add: hours_def)
  show "\<forall>r \<in> snd ` set (pages demo_store). recently_checked 0 r \<longrightarrow> recently_checked 1000000 r"
    by (simp add: demo_store_def recently_checked_def hours_def check_interval_hours_def)
  show "\<forall>sm t. map_of (site_maps demo_store) (netloc demo_env url_a) = Some sm \<longrightarrow>
      last_scan sm = Some t \<longrightarrow> 0 - t < days 7 \<longrightarrow> 1000000 - t < days 7"
    by (simp add: demo_store_def)
qed

section \<open>Properties of the legal content filter\<close>

subsection \<open>Matching on lowercased text\<close>

lemma lower_cp_idem: "lower_cp (lower_cp c) = lower_cp c"
  by (auto simp: lower_cp_def)

lemma same_char_lower:
  "lower_cp p = p \<Longrightarrow> same_char True p (lower_cp c) = same_char False p (lower_cp c)"
  by (auto simp: same_char_def lower_cp_idem)

lemma atom_match_lower:
  "lc_atom a \<Longrightarrow> atom_match True a (lower_cp c) = atom_match False a (lower_cp c)"
  by (induction a) (auto simp: same_char_lower list_ex_iff list_all_iff)

lemma word_here_lower:
  "list_all (\<lambda>p. lower_cp p = p) w \<Longrightarrow>
     word_here True w (map lower_cp s) = word_here False w (map lower_cp s)"
proof (induction w arbitrary: s)
  case Nil
  then show ?case by simp
next
  case (Cons p w)
  then show ?case by (cases s) (auto simp: same_char_lower)
qed

lemma run_length_lower:
  "lc_atom a \<Longrightarrow> run_length True a hi (map lower_cp s) = run_length False a hi (map lower_cp s)"
  by (induction s arbitrary: hi) (auto simp: atom_match_lower)

lemma match_lengths_lower:
  "list_all lc_item rx \<Longrightarrow>
     match_lengths True rx (map lower_cp s) = match_lengths False rx (map lower_cp s)"
proof (induction rx arbitrary: s)
  case Nil
  then show ?case by simp
next
  case (Cons it rx)
  then have ih: "\<And>s. match_lengths True rx (map lower_cp s) = match_lengths False rx (map lower_cp s)"
    by simp
  show ?case
  proof (cases it)
    case (Atom a)
    with Cons.prems ih show ?thesis by (cases s) (auto simp: atom_match_lower)
  next
    case (Rep a lo hi)
    with Cons.prems show ?thesis
      using ih by (simp add: run_length_lower drop_map)
  next
    case (Alt ws)
    have w: "\<And>w. w \<in> set ws \<Longrightarrow>
        word_here True w (map lower_cp s) = word_here False w (map lower_cp s)"
      using Cons.prems Alt by (auto simp: list_all_iff intro!: word_here_lower)
    have d: "\<And>k. match_lengths True rx (drop k (map lower_cp s))
        = match_lengths False rx (drop k (map lower_cp s))"
      using ih by (simp add: drop_map)
    show ?thesis
      unfolding Alt match_lengths.simps d
      by (rule arg_cong [where f = concat], rule map_cong) (simp_all add: w)
  qed
qed

lemma findall_count_lower:
  "list_all lc_item rx \<Longrightarrow>
     findall_count True rx k (map lower_cp s) = findall_count False rx k (map lower_cp s)"
proof (induction s arbitrary: k)
  case Nil
  then show ?case using match_lengths_lower [of rx "[]"] by simp
next
  case (Cons c s)
  then show ?case using match_lengths_lower [of rx "c # s"] by (simp split: list.splits)
qed

lemma non_legal_lc: "list_all (list_all lc_item) non_legal_patterns"
  by (simp add: non_legal_patterns_def literal_def lower_cp_def)

lemma findall_counts_lower:
  "list_all (list_all lc_item) ps \<Longrightarrow>
     map (\<lambda>pattern. real (findall_count True pattern 0 (lower s)) * x) ps
       = map (\<lambda>pattern. real (findall_count False pattern 0 (lower s)) * x) ps"
  by (induction ps) (simp_all add: lower_def findall_count_lower)

lemma calculate_non_legal_score_lower:
  "calculate_non_legal_score (lower s) =
     min (\<Sum>pattern \<leftarrow> non_legal_patterns. real (findall_count False pattern 0 (lower s)) * (1 / 10)) 1"
  by (simp only: calculate_non_legal_score_def findall_counts_lower [OF non_legal_lc])

subsection \<open>Bounds of the scores\<close>

lemma sum_list_map_nonneg: "(\<And>x. x \<in> set xs \<Longrightarrow> 0 \<le> f x) \<Longrightarrow> (0::real) \<le> sum_list (map f xs)"
  by (induction xs) auto

lemma keyword_score_nonneg: "0 \<le> keyword_score txt"
  unfolding keyword_score_def
  by (rule sum_list_map_nonneg)
     (auto simp: category_weight_def weights_def split: option.splits if_splits)

lemma pattern_score_nonneg: "0 \<le> pattern_score txt"
  unfolding pattern_score_def by (rule sum_list_map_nonneg) simp

lemma url_score_nonneg: "0 \<le> url_score u"
  unfolding url_score_def by (auto intro!: sum_list_map_nonneg)

lemma calculate_legal_score_bounds: "0 \<le> calculate_legal_score txt u \<and> calculate_legal_score txt u \<le> 1"
  using keyword_score_nonneg [of "txt"] pattern_score_nonneg [of "txt"] url_score_nonneg [of u]
  by (simp add: calculate_legal_score_def)


lemma check_legal_structure_bounds: "0 \<le> check_legal_structure txt \<and> check_legal_structure txt \<le> 1"
  by (simp add: check_legal_structure_def)

lemma check_legal_terminology_bounds:
  "0 \<le> check_legal_terminology txt \<and> check_legal_terminology txt \<le> 1"
  by (simp add: check_legal_terminology_def)

lemma belarus_bonus_bounds: "0 \<le> belarus_bonus full u \<and> belarus_bonus full u \<le> 1 / 10"
  by (simp add: belarus_bonus_def)

lemma official_bonus_bounds: "0 \<le> official_bonus full \<and> official_bonus full \<le> 5 / 100"
  by (simp add: official_bonus_def)


lemma keywords_found_member:
  "w \<in> set ws \<Longrightarrow> contains w txt \<Longrightarrow> 1 \<le> keywords_found ws txt"
  unfolding keywords_found_def
  by (induction ws) auto

lemma non_legal_member:
  assumes "p \<in> set non_legal_patterns"
  shows "min (real (findall_count True p 0 txt) / 10) 1 \<le> calculate_non_legal_score txt"
proof -
  have "real (findall_count True p 0 txt) * (1 / 10)
      \<le> (\<Sum>pattern \<leftarrow> non_legal_patterns. real (findall_count True pattern 0 txt) * (1 / 10))"
    using assms by (intro member_le_sum_list) auto
  then show ?thesis by (simp add: calculate_non_legal_score_def min_def)
qed

lemma is_legal_content_scored:
  assumes "50 \<le> length (strip txt)"
    and "calculate_non_legal_score (lower (ttl @ [32] @ txt)) \<le> 5 / 10"
  shows "is_legal_content txt ttl u
      = (total_score txt ttl u \<ge> min_legal_score, total_score txt ttl u,
         generate_explanation (calculate_legal_score (lower (ttl @ [32] @ txt)) u)
           (check_legal_structure txt) (check_legal_terminology (lower (ttl @ [32] @ txt)))
           (total_score txt ttl u))"
proof -
  from assms(1) have "txt \<noteq> []"
    by (auto simp: strip_def)
  with assms show ?thesis
    by (simp add: is_legal_content_def Let_def)
qed

lemma short_text_scores_zero:
  "length (strip txt) < 50 \<Longrightarrow> is_legal_content txt ttl u = (False, 0, Too_short)"
  by (simp add: is_legal_content_def)

subsection \<open>The example inputs\<close>

lemma full_fee: "lower ([] @ [32] @ text_fee) = full_fee"
  by (simp add: text_fee_def full_fee_def lower_def lower_cp_def)

lemma full_recipes: "lower ([] @ [32] @ text_recipes) = full_recipes"
  by (simp add: text_recipes_def full_recipes_def lower_def lower_cp_def)


lemma length_fee: "length (strip text_fee) = 67"
  by (simp add: text_fee_def strip_def is_space_def)

lemma length_recipes: "length (strip text_recipes) = 73"
  by (simp add: text_recipes_def strip_def is_space_def)

lemma is_digit_low: "c < 1632 \<Longrightarrow> is_digit c \<longleftrightarrow> 48 \<le> c \<and> c < 58"
  by (auto simp: is_digit_def digit_zeros_def)

lemma is_digit_numero: "\<not> is_digit 8470"
  by (simp add: is_digit_def digit_zeros_def)

lemma non_legal_fee: "calculate_non_legal_score (lower ([] @ [32] @ text_fee)) = 1 / 10"
  apply (subst calculate_non_legal_score_lower)
  apply (simp only: full_fee)
  apply (simp add: full_fee_def non_legal_patterns_def literal_def same_char_def)
  done

lemma structure_fee: "check_legal_structure text_fee = 1"
  by (simp add: check_legal_structure_def text_fee_def same_char_def lower_cp_def
      is_digit_low is_digit_numero is_space_def)





lemma tsena_fee: "findall_count True (literal [1094, 1077, 1085, 1072]) 0 (lower ([] @ [32] @ text_fee)) = 1"
  apply (simp only: full_fee)
  apply (simp add: full_fee_def literal_def same_char_def lower_cp_def)
  done

lemma retsept_recipes:
  "findall_count True (literal [1088, 1077, 1094, 1077, 1087, 1090]) 0 (lower ([] @ [32] @ text_recipes)) = 6"
  apply (simp only: full_recipes)
  apply (simp add: full_recipes_def literal_def same_char_def lower_cp_def)
  done


lemma total_score_fee: "25 / 100 \<le> total_score text_fee [] []"
  using calculate_legal_score_bounds [of full_fee "[]"]
    check_legal_terminology_bounds [of full_fee]
    belarus_bonus_bounds [of full_fee "[]"] official_bonus_bounds [of full_fee]
  unfolding total_score_def Let_def full_fee
  by (simp add: structure_fee)

lemma fee_long: "50 \<le> length (strip text_fee)"
  by (simp add: length_fee)

lemma fee_not_excluded: "calculate_non_legal_score (lower ([] @ [32] @ text_fee)) \<le> 5 / 10"
  unfolding non_legal_fee by simp

lemma is_legal_content_fee:
  "is_legal_content text_fee [] u
     = (total_score text_fee [] u \<ge> min_legal_score, total_score text_fee [] u,
        generate_explanation (calculate_legal_score (lower ([] @ [32] @ text_fee)) u)
          (check_legal_structure text_fee)
          (check_legal_terminology (lower ([] @ [32] @ text_fee)))
          (total_score text_fee [] u))"
  by (rule is_legal_content_scored [OF fee_long fee_not_excluded])

subsection \<open>The claims\<close>

text \<open>
  Claim C2, as stated: if at least one disqualifying pattern matches the combined
  title-plus-text, the gate returns admissible == false. The text \<open>text_fee\<close> holds
  one match of the disqualifying pattern tsena, and the gate admits it.
\<close>

theorem exclusion_single_match_counterexample:
  "literal [1094, 1077, 1085, 1072] \<in> set non_legal_patterns \<and>
   findall_count True (literal [1094, 1077, 1085, 1072]) 0 (lower ([] @ [32] @ text_fee)) = 1 \<and>
   fst (is_legal_content text_fee [] [])"
proof -
  have "literal [1094, 1077, 1085, 1072] \<in> set non_legal_patterns"
    by (simp add: non_legal_patterns_def)
  moreover have "min_legal_score \<le> total_score text_fee [] []"
    using total_score_fee by (simp add: min_legal_score_def)
  then have "fst (is_legal_content text_fee [] [])"
    unfolding is_legal_content_fee by simp
  ultimately show ?thesis
    using tsena_fee by (intro conjI)
qed

text \<open>
  Claim C2, amended: if the non-legal score of the combined, lowercased title-plus-text
  (0.1 for every match of a disqualifying pattern, capped at 1) is above 0.5, which takes
  six matches, the gate returns admissible == false whatever the keyword, structural and
  terminology scores are; the weighted sum is not computed: the result is either the
  rejection of a text shorter than 50 characters or the non-legal score itself with the
  explanation of non-relevant content.
\<close>

theorem exclusion_check_rejects:
  assumes "calculate_non_legal_score (lower (ttl @ [32] @ txt)) > 5 / 10"
  shows "\<not> fst (is_legal_content txt ttl u) \<and>
         (is_legal_content txt ttl u = (False, 0, Too_short) \<or>
          is_legal_content txt ttl u
            = (False, calculate_non_legal_score (lower (ttl @ [32] @ txt)), Non_relevant_content))"
  using assms by (simp add: is_legal_content_def Let_def)

theorem exclusion_check_rejects_witness:
  "calculate_non_legal_score (lower ([] @ [32] @ text_recipes)) > 5 / 10 \<and>
   \<not> fst (is_legal_content text_recipes [] url_portal) \<and>
   (is_legal_content text_recipes [] url_portal = (False, 0, Too_short) \<or>
    is_legal_content text_recipes [] url_portal
      = (False, calculate_non_legal_score (lower ([] @ [32] @ text_recipes)), Non_relevant_content))"
proof -
  have "literal [1088, 1077, 1094, 1077, 1087, 1090] \<in> set non_legal_patterns"
    by (simp add: non_legal_patterns_def)
  from non_legal_member [OF this, of "lower ([] @ [32] @ text_recipes)", unfolded retsept_recipes]
  have h: "calculate_non_legal_score (lower ([] @ [32] @ text_recipes)) > 5 / 10"
    by simp
  from conjI [OF h exclusion_check_rejects [OF h, of url_portal]]
  show ?thesis .
qed




section \<open>Properties of the dynamic search\<close>

lemma findall_count_first_absent:
  "\<forall>c \<in> set t. \<not> same_char ic p c \<Longrightarrow> findall_count ic (Atom (Chr p) # rx) k t = 0"
  by (induction t arbitrary: k) auto

lemma same_char_latin: "c < 1024 \<Longrightarrow> 1072 \<le> p \<Longrightarrow> p \<le> 1103 \<Longrightarrow> \<not> same_char True p c"
  by (auto simp: same_char_def lower_cp_def)

lemma non_legal_first_chars:
  "\<forall>rx \<in> set non_legal_patterns. \<exists>p rest. rx = Atom (Chr p) # rest \<and> 1072 \<le> p \<and> p \<le> 1103"
  by (simp add: non_legal_patterns_def literal_def)

lemma non_legal_latin:
  assumes "\<forall>c \<in> set t. c < 1024"
  shows "calculate_non_legal_score t = 0"
proof -
  have "findall_count True rx 0 t = 0" if "rx \<in> set non_legal_patterns" for rx
  proof -
    from that non_legal_first_chars obtain p rest where
      "rx = Atom (Chr p) # rest" "1072 \<le> p" "p \<le> 1103" by blast
    with assms show ?thesis
      by (auto intro!: findall_count_first_absent simp: same_char_latin)
  qed
  then have "map (\<lambda>pattern. real (findall_count True pattern 0 t) * (1 / 10)) non_legal_patterns
      = map (\<lambda>pattern. 0) non_legal_patterns"
    by (intro map_cong) auto
  then have "(\<Sum>pattern \<leftarrow> non_legal_patterns. real (findall_count True pattern 0 t) * (1 / 10)) = 0"
    by (simp only: sum_list_0)
  then show ?thesis
    by (simp add: calculate_non_legal_score_def)
qed

lemma lower_cp_latin: "c < 1024 \<Longrightarrow> lower_cp c < 1024"
  by (auto simp: lower_cp_def)

lemma dropWhile_head: "t \<noteq> [] \<Longrightarrow> \<not> P (hd t) \<Longrightarrow> dropWhile P t = t"
  by (cases t) auto

lemma strip_no_space:
  assumes "t \<noteq> []" and "\<not> is_space (hd t)" and "\<not> is_space (last t)"
  shows "strip t = t"
proof -
  have "dropWhile is_space t = t"
    using assms by (simp add: dropWhile_head)
  moreover have "dropWhile is_space (rev t) = rev t"
    using assms by (intro dropWhile_head) (simp_all add: hd_rev)
  ultimately show ?thesis
    by (simp add: strip_def)
qed

lemma calculate_legal_score_ge_url: "min (url_score u) 1 \<le> calculate_legal_score full u"
  using keyword_score_nonneg [of full] pattern_score_nonneg [of full]
  by (simp add: calculate_legal_score_def min_def)

lemma belarus_bonus_url:
  "contains [112, 114, 97, 118, 111, 46, 98, 121] (lower u) \<Longrightarrow> belarus_bonus full u = 1 / 10"
  by (simp add: belarus_bonus_def)

lemma page_law_admissible:
  "fst (is_legal_content (page_content page_law) (page_title page_law) (page_url page_law))"
proof -
  let ?t = "page_content page_law" and ?ttl = "page_title page_law" and ?u = "page_url page_law"
  let ?full = "lower (?ttl @ [32] @ ?t)"
  have s: "strip ?t = ?t"
    by (rule strip_no_space) (simp_all add: page_law_def is_space_def)
  have l: "50 \<le> length (strip ?t)"
    unfolding s by (simp add: page_law_def)
  have "\<forall>c \<in> set ?full. c < 1024"
    by (auto simp: page_law_def lower_def lower_cp_def)
  then have n: "calculate_non_legal_score ?full \<le> 5 / 10"
    by (simp add: non_legal_latin)
  have lu: "lower ?u = ?u"
    by (simp add: page_law_def lower_def lower_cp_def)
  have us: "url_score ?u = 2 / 10"
    unfolding url_score_def lu by (simp add: page_law_def legal_url_patterns_def)
  have "contains [112, 114, 97, 118, 111, 46, 98, 121] (lower ?u)"
    unfolding lu by (simp add: page_law_def)
  then have b: "belarus_bonus ?full ?u = 1 / 10"
    by (rule belarus_bonus_url)
  have "2 / 10 \<le> calculate_legal_score ?full ?u"
    using calculate_legal_score_ge_url [of ?u ?full] by (simp add: us)
  then have "min_legal_score \<le> total_score ?t ?ttl ?u"
    using check_legal_structure_bounds [of ?t] check_legal_terminology_bounds [of ?full]
      official_bonus_bounds [of ?full]
    unfolding total_score_def Let_def b min_legal_score_def by simp
  then show ?thesis
    unfolding is_legal_content_scored [OF l n] by simp
qed

lemma demo_search_run:
  "search_and_add_to_knowledge_base demo_searcher query_zakon 0
     = (Some ([111, 107] @ source_info 1), True)"
proof -
  have f: "filter_scraped_content [page_law] = [page_law]"
    using page_law_admissible by (simp add: filter_scraped_content_def page_law_def)
  have r: "search_relevant_docs near_store query_zakon 5
      = [\<lparr>content = [1087, 1088, 1072, 1074, 1086], metadata = [], distance = 7 / 10\<rparr>]"
    by (simp add: search_relevant_docs_def metadata_at_def near_store_def query_zakon_def
        strip_def is_space_def)
  have len: "length (page_content page_law) > 200"
    by (simp add: page_law_def)
  show ?thesis
    unfolding search_and_add_to_knowledge_base_def
    by (simp add: demo_searcher_def max_search_results_def f r len)
qed

text \<open>
  Claim C7. \<open>search_and_add_to_knowledge_base\<close> always returns, whatever its callees
  do, raising included, and it returns either \<open>(None, False)\<close> or an answer with
  \<open>True\<close>. It returns an answer only when every step went through: the queries were
  generated, the searches found an address, a page was scraped, a page was admitted by
  the relevance gate, at least one chunk was added, the tracker was updated, the query
  was asked again and returned documents, and the answer was generated. So when no
  address is found, no page is scraped, no page is admissible, no chunk is added, the
  repeated query returns nothing, or any step raises, the result is \<open>(None, False)\<close>.
\<close>

theorem search_and_add_outcome:
  "(search_and_add_to_knowledge_base S q w = (None, False) \<or>
    (\<exists>answer. search_and_add_to_knowledge_base S q w = (Some answer, True))) \<and>
   (\<forall>answer ok. search_and_add_to_knowledge_base S q w = (Some answer, ok) \<longrightarrow>
      (\<exists>queries found w1 scraped w2 added w3 w4 text w5.
         generate_search_queries S q = Some queries \<and>
         search_all S queries w = (Some found, w1) \<and> remdups found \<noteq> [] \<and>
         scrape_all S (take max_search_results (remdups found)) w1 = (scraped, w2) \<and>
         scraped \<noteq> [] \<and> filter_scraped_content scraped \<noteq> [] \<and>
         searcher_add_to_knowledge_base S (filter_scraped_content scraped) w2 = (Some added, w3) \<and>
         added > 0 \<and>
         update_scraping_info S [104, 116, 116, 112, 115, 58, 47, 47, 112, 114, 97, 118,
                                 111, 46, 98, 121, 47] (length scraped) added w3 = (Some (), w4) \<and>
         search_relevant_docs (knowledge_base S w4) q 5 \<noteq> [] \<and>
         get_answer S q (search_relevant_docs (knowledge_base S w4) q 5) w4 = (Some text, w5) \<and>
         answer = text @ source_info (length scraped) \<and> ok))"
  unfolding search_and_add_to_knowledge_base_def
  by (auto split: option.splits prod.splits if_splits)

theorem search_and_add_outcome_witness:
  "search_and_add_to_knowledge_base demo_searcher query_zakon 0
     = (Some ([111, 107] @ source_info 1), True) \<and>
   (\<exists>queries found w1 scraped w2 added w3 w4 text w5.
      generate_search_queries demo_searcher query_zakon = Some queries \<and>
      search_all demo_searcher queries 0 = (Some found, w1) \<and> remdups found \<noteq> [] \<and>
      scrape_all demo_searcher (take max_search_results (remdups found)) w1 = (scraped, w2) \<and>
      scraped \<noteq> [] \<and> filter_scraped_content scraped \<noteq> [] \<and>
      searcher_add_to_knowledge_base demo_searcher (filter_scraped_content scraped) w2
        = (Some added, w3) \<and>
      added > 0 \<and>
      update_scraping_info demo_searcher [104, 116, 116, 112, 115, 58, 47, 47, 112, 114, 97, 118,
                              111, 46, 98, 121, 47] (length scraped) added w3 = (Some (), w4) \<and>
      search_relevant_docs (knowledge_base demo_searcher w4) query_zakon 5 \<noteq> [] \<and>
      get_answer demo_searcher query_zakon
        (search_relevant_docs (knowledge_base demo_searcher w4) query_zakon 5) w4
        = (Some text, w5) \<and>
      [111, 107] @ source_info 1 = text @ source_info (length scraped) \<and> True)"
proof -
  from search_and_add_outcome [of demo_searcher query_zakon 0, THEN conjunct2, rule_format,
      OF demo_search_run]
  have "(\<exists>queries found w1 scraped w2 added w3 w4 text w5.
        generate_search_queries demo_searcher query_zakon = Some queries \<and>
        search_all demo_searcher queries 0 = (Some found, w1) \<and> remdups found \<noteq> [] \<and>
        scrape_all demo_searcher (take max_search_results (remdups found)) w1 = (scraped, w2) \<and>
        scraped \<noteq> [] \<and> filter_scraped_content scraped \<noteq> [] \<and>
        searcher_add_to_knowledge_base demo_searcher (filter_scraped_content scraped) w2
          = (Some added, w3) \<and>
        added > 0 \<and>
        update_scraping_info demo_searcher [104, 116, 116, 112, 115, 58, 47, 47, 112, 114, 97, 118,
                                111, 46, 98, 121, 47] (length scraped) added w3 = (Some (), w4) \<and>
        search_relevant_docs (knowledge_base demo_searcher w4) query_zakon 5 \<noteq> [] \<and>
        get_answer demo_searcher query_zakon
          (search_relevant_docs (knowledge_base demo_searcher w4) query_zakon 5) w4
          = (Some text, w5) \<and>
        [111, 107] @ source_info 1 = text @ source_info (length scraped) \<and> True)" .
  from conjI [OF demo_search_run this] show ?thesis .
qed

end
